theory Spec2Isabelle
  imports Complex_Main "HOL-Library.AList" "HOL-Library.Signed_Division"
begin

section \<open>The wizard state machine (WizardContext.jsx)\<close>

text \<open>
  A step descriptor \<^verbatim>\<open>{ id, label, component }\<close>. The component is a render capability
  that no navigation function reads; it is left out of the record.
\<close>

record StepDescriptor =
  step_id :: string
  label :: string

text \<open>
  The three \<^verbatim>\<open>useState\<close> cells of \<^verbatim>\<open>WizardProvider\<close>. \<^verbatim>\<open>currentStep\<close> is a JS
  number, here an \<open>int\<close>. \<^verbatim>\<open>formData\<close> is an object used as a dictionary.
  \<^verbatim>\<open>completedSteps\<close> is an object whose keys are step ids and whose values are all
  \<^verbatim>\<open>true\<close>; it is kept as an association list in insertion order, because the code
  counts its keys (\<^verbatim>\<open>Object.keys(completedSteps).length\<close>).
\<close>

record 'v WizardState =
  currentStep :: int
  formData :: "string \<rightharpoonup> 'v"
  completedSteps :: "(string \<times> bool) list"

definition totalSteps :: "StepDescriptor list \<Rightarrow> int" where
  "totalSteps steps = int (length steps)"

text \<open>
  \<^verbatim>\<open>steps[i]?.id\<close>: the id of the descriptor at index \<open>i\<close>, and \<^verbatim>\<open>undefined\<close> when
  the index is out of range. Used as an object key, \<^verbatim>\<open>undefined\<close> is the string
  \<^verbatim>\<open>"undefined"\<close>.
\<close>

definition id_at :: "StepDescriptor list \<Rightarrow> int \<Rightarrow> string" where
  "id_at steps i =
     (if 0 \<le> i \<and> i < int (length steps) then step_id (steps ! nat i) else ''undefined'')"

definition currentStepId :: "StepDescriptor list \<Rightarrow> 'v WizardState \<Rightarrow> string" where
  "currentStepId steps s = id_at steps (currentStep s)"

definition isFirstStep :: "'v WizardState \<Rightarrow> bool" where
  "isFirstStep s = (currentStep s = 0)"

definition isLastStep :: "StepDescriptor list \<Rightarrow> 'v WizardState \<Rightarrow> bool" where
  "isLastStep steps s = (currentStep s = totalSteps steps - 1)"

text \<open>\<^verbatim>\<open>Object.keys(completedSteps).length\<close>\<close>

definition keys_length :: "(string \<times> bool) list \<Rightarrow> int" where
  "keys_length cs = int (length cs)"

text \<open>
  The state a freshly mounted provider holds: \<^verbatim>\<open>useState(0)\<close>,
  \<^verbatim>\<open>useState(initialData)\<close>, \<^verbatim>\<open>useState({})\<close>.
\<close>

definition initial_state :: "(string \<rightharpoonup> 'v) \<Rightarrow> 'v WizardState" where
  "initial_state initialData =
     \<lparr>currentStep = 0, formData = initialData, completedSteps = []\<rparr>"

text \<open>
  Mounting \<^verbatim>\<open>WizardProvider\<close> with \<open>steps\<close> and \<open>initialData\<close>. \<open>None\<close> stands for a
  mount that throws. The source has no \<^verbatim>\<open>throw\<close> and no check of \<open>steps\<close> on this
  path (\<^verbatim>\<open>steps.length\<close> and \<^verbatim>\<open>steps[0]?.id\<close> are defined for the empty array), so
  every branch returns a state.
\<close>

definition WizardProvider ::
  "StepDescriptor list \<Rightarrow> (string \<rightharpoonup> 'v) \<Rightarrow> 'v WizardState option" where
  "WizardProvider steps initialData = Some (initial_state initialData)"

definition goToNextStep :: "StepDescriptor list \<Rightarrow> 'v WizardState \<Rightarrow> 'v WizardState" where
  "goToNextStep steps s =
     (if currentStep s < totalSteps steps - 1
      then s\<lparr>completedSteps := AList.update (currentStepId steps s) True (completedSteps s),
             currentStep := currentStep s + 1\<rparr>
      else s)"

definition goToPrevStep :: "'v WizardState \<Rightarrow> 'v WizardState" where
  "goToPrevStep s = (if currentStep s > 0 then s\<lparr>currentStep := currentStep s - 1\<rparr> else s)"

text \<open>The two local tests of \<^verbatim>\<open>goToStep\<close>, under the names the source gives them.\<close>

definition isCompletedStep :: "'v WizardState \<Rightarrow> int \<Rightarrow> bool" where
  "isCompletedStep s stepIndex = (keys_length (completedSteps s) \<ge> stepIndex)"

definition isNextAvailableStep :: "'v WizardState \<Rightarrow> int \<Rightarrow> bool" where
  "isNextAvailableStep s stepIndex = (stepIndex = keys_length (completedSteps s))"

definition goToStep :: "StepDescriptor list \<Rightarrow> int \<Rightarrow> 'v WizardState \<Rightarrow> 'v WizardState" where
  "goToStep steps stepIndex s =
     (if stepIndex \<ge> 0 \<and> stepIndex < totalSteps steps
         \<and> (isCompletedStep s stepIndex \<or> isNextAvailableStep s stepIndex)
      then s\<lparr>currentStep := stepIndex\<rparr>
      else s)"

text \<open>\<^verbatim>\<open>{...prev, ...newData}\<close>: the keys of \<open>newData\<close> win.\<close>

definition updateFormData :: "(string \<rightharpoonup> 'v) \<Rightarrow> 'v WizardState \<Rightarrow> 'v WizardState" where
  "updateFormData newData s = s\<lparr>formData := formData s ++ newData\<rparr>"

text \<open>\<^verbatim>\<open>!!completedSteps[steps[stepIndex]?.id]\<close>\<close>

definition isStepCompleted :: "StepDescriptor list \<Rightarrow> int \<Rightarrow> 'v WizardState \<Rightarrow> bool" where
  "isStepCompleted steps stepIndex s =
     (map_of (completedSteps s) (id_at steps stepIndex) = Some True)"

definition resetWizard :: "(string \<rightharpoonup> 'v) \<Rightarrow> 'v WizardState \<Rightarrow> 'v WizardState" where
  "resetWizard newInitialData s =
     s\<lparr>currentStep := 0, formData := newInitialData, completedSteps := []\<rparr>"

text \<open>
  The operations the context value hands to its consumers, as events, and a run of the
  provider: each event is handled to completion before the next one.
\<close>

datatype 'v wizard_op =
    GoToNextStep
  | GoToPrevStep
  | GoToStep int
  | UpdateFormData "string \<rightharpoonup> 'v"
  | ResetWizard "string \<rightharpoonup> 'v"

fun perform :: "StepDescriptor list \<Rightarrow> 'v wizard_op \<Rightarrow> 'v WizardState \<Rightarrow> 'v WizardState" where
  "perform steps GoToNextStep s = goToNextStep steps s"
| "perform steps GoToPrevStep s = goToPrevStep s"
| "perform steps (GoToStep k) s = goToStep steps k s"
| "perform steps (UpdateFormData d) s = updateFormData d s"
| "perform steps (ResetWizard d) s = resetWizard d s"

fun run_ops :: "StepDescriptor list \<Rightarrow> 'v wizard_op list \<Rightarrow> 'v WizardState \<Rightarrow> 'v WizardState" where
  "run_ops steps [] s = s"
| "run_ops steps (ev # evs) s = run_ops steps evs (perform steps ev s)"

text \<open>The state of a provider mounted with \<open>initialData\<close> after the events \<open>evs\<close>.\<close>

definition wizard_after ::
  "StepDescriptor list \<Rightarrow> (string \<rightharpoonup> 'v) \<Rightarrow> 'v wizard_op list \<Rightarrow> 'v WizardState" where
  "wizard_after steps initialData evs = run_ops steps evs (initial_state initialData)"

definition step_ids :: "StepDescriptor list \<Rightarrow> string list" where
  "step_ids steps = map step_id steps"

text \<open>The key list of a dictionary that holds exactly the ids \<open>ks\<close>, each mapped to \<^verbatim>\<open>true\<close>.\<close>

definition all_true :: "string list \<Rightarrow> (string \<times> bool) list" where
  "all_true ks = map (\<lambda>k. (k, True)) ks"

text \<open>
  What every run keeps true when the step ids are distinct: the completed ids are the
  first ids of the step list, in order, the current step is not beyond them, and the
  last step is never marked.
\<close>

definition prefix_inv :: "StepDescriptor list \<Rightarrow> 'v WizardState \<Rightarrow> bool" where
  "prefix_inv steps s =
     (completedSteps s = all_true (take (length (completedSteps s)) (step_ids steps))
      \<and> 0 \<le> currentStep s
      \<and> currentStep s \<le> int (length (completedSteps s))
      \<and> (length (completedSteps s) < length steps \<or> completedSteps s = []))"

text \<open>The object literal \<^verbatim>\<open>{}\<close>, the default of \<^verbatim>\<open>initialData\<close> and of \<^verbatim>\<open>newInitialData\<close>.\<close>

definition empty_object :: "string \<rightharpoonup> 'v" where
  "empty_object = Map.empty"

text \<open>The step list of CaptionGenerator.jsx.\<close>

definition WIZARD_STEPS :: "StepDescriptor list" where
  "WIZARD_STEPS =
    [\<lparr>step_id = ''upload_media'', label = ''Upload Media''\<rparr>,
     \<lparr>step_id = ''select_niche'', label = ''Select Niche''\<rparr>,
     \<lparr>step_id = ''platform'', label = ''Platform''\<rparr>,
     \<lparr>step_id = ''goal'', label = ''Goal''\<rparr>,
     \<lparr>step_id = ''tone'', label = ''Tone''\<rparr>,
     \<lparr>step_id = ''generated_captions'', label = ''Generated Captions''\<rparr>]"

section \<open>The media edit engine (UploadMediaStep.jsx)\<close>

text \<open>
  JS numbers are IEEE 754 doubles. A number is kept as the \<open>real\<close> it denotes, and every
  arithmetic operation of the source rounds its exact result to the nearest double, ties
  to even (\<open>binary64\<close>). A double is a multiple of \<open>2\<close> to the power \<open>e - 52\<close>,
  where \<open>e\<close> is the binary exponent of the number and at least \<open>-1022\<close>. Results
  beyond the largest double (JS gives \<^verbatim>\<open>Infinity\<close>) and \<^verbatim>\<open>NaN\<close> are not represented.
  The rotation of the media only ever holds integers and is an \<open>int\<close>.
\<close>

definition pow2 :: "int \<Rightarrow> real" where
  "pow2 e = (if 0 \<le> e then 2 ^ nat e else 1 / 2 ^ nat (- e))"

definition roundTiesToEven :: "real \<Rightarrow> int" where
  "roundTiesToEven y =
     (if y - of_int \<lfloor>y\<rfloor> < 1 / 2 then \<lfloor>y\<rfloor>
      else if y - of_int \<lfloor>y\<rfloor> > 1 / 2 then \<lfloor>y\<rfloor> + 1
      else if even \<lfloor>y\<rfloor> then \<lfloor>y\<rfloor> else \<lfloor>y\<rfloor> + 1)"

definition exponent64 :: "real \<Rightarrow> int" where
  "exponent64 x = max (- 1022) \<lfloor>log 2 \<bar>x\<bar>\<rfloor>"

definition binary64 :: "real \<Rightarrow> real" where
  "binary64 x =
     (if x = 0 then 0
      else of_int (roundTiesToEven (x / pow2 (exponent64 x - 52))) * pow2 (exponent64 x - 52))"

text \<open>The JS operators \<^verbatim>\<open>+\<close>, \<^verbatim>\<open>-\<close>, \<^verbatim>\<open>*\<close> and \<^verbatim>\<open>/\<close> on numbers.\<close>

definition js_add :: "real \<Rightarrow> real \<Rightarrow> real" where
  "js_add a b = binary64 (a + b)"

definition js_sub :: "real \<Rightarrow> real \<Rightarrow> real" where
  "js_sub a b = binary64 (a - b)"

definition js_mul :: "real \<Rightarrow> real \<Rightarrow> real" where
  "js_mul a b = binary64 (a * b)"

definition js_div :: "real \<Rightarrow> real \<Rightarrow> real" where
  "js_div a b = binary64 (a / b)"

text \<open>
  The \<^verbatim>\<open>width\<close> and \<^verbatim>\<open>height\<close> of a canvas are \<^verbatim>\<open>unsigned long\<close> attributes. A
  number assigned to one is truncated toward zero and reduced modulo \<open>2\<close> to the power
  \<open>32\<close>; a result above \<open>2147483647\<close> is replaced by the default of the attribute
  (\<open>300\<close> for the width, \<open>150\<close> for the height).
\<close>

definition toUnsignedLong :: "real \<Rightarrow> nat" where
  "toUnsignedLong x = nat ((if x < 0 then - \<lfloor>- x\<rfloor> else \<lfloor>x\<rfloor>) mod 2 ^ 32)"

definition canvas_size :: "nat \<Rightarrow> real \<Rightarrow> nat" where
  "canvas_size dflt x =
     (if toUnsignedLong x \<le> 2147483647 then toUnsignedLong x else dflt)"

record Point =
  x_coord :: real
  y_coord :: real

text \<open>The parts of a \<^verbatim>\<open>File\<close> the step reads: \<^verbatim>\<open>file.type\<close> and \<^verbatim>\<open>file.size\<close>.\<close>

record File =
  file_type :: string
  file_size :: nat

text \<open>
  What \<^verbatim>\<open>canvas.toDataURL\<close> encodes in \<^verbatim>\<open>handleCropEnd\<close>: a canvas of
  \<open>raster_width\<close> by \<open>raster_height\<close> pixels that holds the source rectangle of that
  size starting at \<open>(source_x, source_y)\<close>, in the given MIME type.
\<close>

record Raster =
  raster_width :: nat
  raster_height :: nat
  source_x :: real
  source_y :: real
  mime :: string

text \<open>
  The values \<^verbatim>\<open>mediaUrl\<close> takes: the empty string, an object URL handed out by
  \<^verbatim>\<open>URL.createObjectURL\<close> (numbered in the order of creation), or a data URL.
\<close>

datatype media_url = NoUrl | BlobUrl nat | DataUrl Raster

text \<open>
  The browser's blob URL store: the object URLs that have been created and not revoked,
  each with the file it keeps alive.
\<close>

record BlobStore =
  entries :: "nat \<rightharpoonup> File"
  next_id :: nat

definition createObjectURL :: "File \<Rightarrow> BlobStore \<Rightarrow> media_url \<times> BlobStore" where
  "createObjectURL file b =
     (BlobUrl (next_id b),
      b\<lparr>entries := (entries b)(next_id b \<mapsto> file), next_id := Suc (next_id b)\<rparr>)"

text \<open>Revoking a URL that is not a live object URL does nothing.\<close>

fun revokeObjectURL :: "media_url \<Rightarrow> BlobStore \<Rightarrow> BlobStore" where
  "revokeObjectURL (BlobUrl n) b = b\<lparr>entries := (entries b)(n := None)\<rparr>"
| "revokeObjectURL u b = b"

text \<open>The natural pixel size of the \<^verbatim>\<open><img>\<close> that \<^verbatim>\<open>imageRef\<close> points at.\<close>

record Image =
  naturalWidth :: nat
  naturalHeight :: nat

text \<open>\<^verbatim>\<open>getBoundingClientRect()\<close> of the media container and the pointer position of an event.\<close>

record Rect =
  rect_left :: real
  rect_top :: real
  rect_width :: real
  rect_height :: real

record MouseEvent =
  clientX :: real
  clientY :: real

record DragStart =
  mouseX :: real
  mouseY :: real
  textX :: real
  textY :: real

text \<open>
  The keys of the wizard's \<^verbatim>\<open>formData\<close> that this step reads and writes, one field per
  key. A key that is absent or holds a falsy value of its type is the falsy value here
  (empty string, \<open>0\<close>, \<open>False\<close>, \<open>None\<close> for \<^verbatim>\<open>null\<close> and \<^verbatim>\<open>undefined\<close>).
  \<^verbatim>\<open>updateFormData(patch)\<close> is the update of exactly the fields of the patch.
\<close>

record MediaForm =
  media :: "File option"
  mediaUrl :: media_url
  mediaType :: string
  fd_filter :: string
  fd_rotation :: int
  fd_textOverlay :: string
  fd_textPosition :: "Point option"
  fd_textRotation :: "real option"
  filtersApplied :: "string list"
  isTextOnly :: bool
  editsSaved :: bool

text \<open>The \<^verbatim>\<open>useState\<close> cells of the component.\<close>

record Editor =
  isDragging :: bool
  error :: string
  cameraError :: string
  showEditor :: bool
  filter_id :: string
  rotation :: int
  cropStart :: Point
  cropEnd :: Point
  isCropping :: bool
  cropPreview :: "Raster option"
  isAddingText :: bool
  textOverlay :: string
  textPosition :: Point
  editHistory :: "string list"
  currentEdit :: int
  isDraggingText :: bool
  dragStartPos :: "DragStart option"
  showEmojiPicker :: bool
  textRotation :: real
  isRotatingText :: bool

record MediaState =
  ed :: Editor
  form :: MediaForm
  blobs :: BlobStore

definition bottom_center :: Point where
  "bottom_center = \<lparr>x_coord = 50, y_coord = 90\<rparr>"

definition initial_editor :: Editor where
  "initial_editor =
     \<lparr>isDragging = False, error = [], cameraError = [], showEditor = False,
      filter_id = ''none'', rotation = 0, cropStart = bottom_center, cropEnd = bottom_center,
      isCropping = False, cropPreview = None, isAddingText = False, textOverlay = [],
      textPosition = bottom_center, editHistory = [], currentEdit = 0,
      isDraggingText = False, dragStartPos = None, showEmojiPicker = False,
      textRotation = 0, isRotatingText = False\<rparr>"

text \<open>The \<^verbatim>\<open>initialData\<close> of CaptionGenerator.jsx, restricted to the keys above.\<close>

definition initial_form :: MediaForm where
  "initial_form =
     \<lparr>media = None, mediaUrl = NoUrl, mediaType = [], fd_filter = [], fd_rotation = 0,
      fd_textOverlay = [], fd_textPosition = None, fd_textRotation = None,
      filtersApplied = [], isTextOnly = False, editsSaved = False\<rparr>"

definition empty_store :: BlobStore where
  "empty_store = \<lparr>entries = Map.empty, next_id = 0\<rparr>"

definition initial_media :: MediaState where
  "initial_media = \<lparr>ed = initial_editor, form = initial_form, blobs = empty_store\<rparr>"

definition supportedTypes :: "string list" where
  "supportedTypes =
     [''image/jpeg'', ''image/png'', ''image/gif'', ''image/webp'',
      ''video/mp4'', ''video/quicktime'', ''video/x-msvideo'']"

definition MAX_FILE_SIZE :: nat where
  "MAX_FILE_SIZE = 50 * 1024 * 1024"

definition startsWith :: "string \<Rightarrow> string \<Rightarrow> bool" where
  "startsWith s p = (take (length p) s = p)"

text \<open>
  The effect that runs after every render in which \<^verbatim>\<open>formData\<close> is a new object, that
  is, after mount and after every \<^verbatim>\<open>updateFormData\<close>.
\<close>

definition restoreEffect :: "MediaState \<Rightarrow> MediaState" where
  "restoreEffect s =
     (if mediaUrl (form s) \<noteq> NoUrl
      then s\<lparr>ed := (ed s)
             \<lparr>showEditor := True,
              filter_id := (if fd_filter (form s) \<noteq> [] then fd_filter (form s) else filter_id (ed s)),
              rotation := (if fd_rotation (form s) \<noteq> 0 then fd_rotation (form s) else rotation (ed s)),
              textOverlay :=
                (if fd_textOverlay (form s) \<noteq> [] then fd_textOverlay (form s) else textOverlay (ed s)),
              textPosition :=
                (case fd_textPosition (form s) of Some p \<Rightarrow> p | None \<Rightarrow> textPosition (ed s)),
              textRotation :=
                (case fd_textRotation (form s) of Some r \<Rightarrow> r | None \<Rightarrow> textRotation (ed s))\<rparr>\<rparr>
      else s)"

text \<open>Mounting the step: fresh \<^verbatim>\<open>useState\<close> cells over the \<^verbatim>\<open>formData\<close> the wizard kept.\<close>

definition mount :: "MediaState \<Rightarrow> MediaState" where
  "mount s = restoreEffect (s\<lparr>ed := initial_editor\<rparr>)"

definition handleDragEnter :: "MediaState \<Rightarrow> MediaState" where
  "handleDragEnter s = s\<lparr>ed := (ed s)\<lparr>isDragging := True\<rparr>\<rparr>"

definition handleDragLeave :: "MediaState \<Rightarrow> MediaState" where
  "handleDragLeave s = s\<lparr>ed := (ed s)\<lparr>isDragging := False\<rparr>\<rparr>"

definition handleFileSelection :: "File \<Rightarrow> MediaState \<Rightarrow> MediaState" where
  "handleFileSelection file s =
     (if file_type file \<notin> set supportedTypes
      then s\<lparr>ed := (ed s)\<lparr>error := ''Unsupported file type. Please upload an image or video.''\<rparr>\<rparr>
      else if file_size file > MAX_FILE_SIZE
      then s\<lparr>ed := (ed s)\<lparr>error := ''File is too large. Maximum size is 50MB.''\<rparr>\<rparr>
      else
        let (url, store) = createObjectURL file (blobs s);
            mType = (if startsWith (file_type file) ''image/'' then ''image'' else ''video'')
        in restoreEffect
          \<lparr>ed = (ed s)
             \<lparr>error := [], filter_id := ''none'', rotation := 0, isCropping := False,
              isAddingText := False, textOverlay := [], textPosition := bottom_center,
              editHistory := [], currentEdit := 0, showEditor := True\<rparr>,
           form = (form s)
             \<lparr>media := Some file, mediaUrl := url, mediaType := mType, fd_filter := ''none'',
              fd_rotation := 0, fd_textOverlay := [], fd_textPosition := Some bottom_center,
              filtersApplied := []\<rparr>,
           blobs = store\<rparr>)"

text \<open>\<^verbatim>\<open>handleDrop\<close> and \<^verbatim>\<open>handleFileInputChange\<close> take the first file of the list, if any.\<close>

definition handleDrop :: "File list \<Rightarrow> MediaState \<Rightarrow> MediaState" where
  "handleDrop files s =
     (let s' = s\<lparr>ed := (ed s)\<lparr>isDragging := False\<rparr>\<rparr>
      in case files of [] \<Rightarrow> s' | file # _ \<Rightarrow> handleFileSelection file s')"

definition handleFileInputChange :: "File list \<Rightarrow> MediaState \<Rightarrow> MediaState" where
  "handleFileInputChange files s =
     (case files of [] \<Rightarrow> s | file # _ \<Rightarrow> handleFileSelection file s)"

definition removeMedia :: "MediaState \<Rightarrow> MediaState" where
  "removeMedia s =
     restoreEffect
       (s\<lparr>blobs := (if mediaUrl (form s) \<noteq> NoUrl
                     then revokeObjectURL (mediaUrl (form s)) (blobs s) else blobs s),
          form := (form s)
             \<lparr>media := None, mediaUrl := NoUrl, mediaType := [], fd_filter := [],
              fd_rotation := 0, fd_textOverlay := [], fd_textPosition := Some bottom_center,
              filtersApplied := []\<rparr>,
          ed := (ed s)\<lparr>showEditor := False\<rparr>\<rparr>)"

text \<open>
  \<^verbatim>\<open>createTextOnlyCaption\<close> patches \<^verbatim>\<open>formData\<close> and then calls the wizard's
  \<^verbatim>\<open>goToNextStep\<close>, which is not part of this state.
\<close>

definition createTextOnlyCaption :: "MediaState \<Rightarrow> MediaState" where
  "createTextOnlyCaption s =
     restoreEffect
       (s\<lparr>form := (form s)
             \<lparr>media := None, mediaUrl := NoUrl, mediaType := ''text-only'', isTextOnly := True\<rparr>\<rparr>)"

definition applyFilter :: "string \<Rightarrow> MediaState \<Rightarrow> MediaState" where
  "applyFilter filterId s =
     restoreEffect
       (s\<lparr>ed := (ed s)\<lparr>filter_id := filterId\<rparr>,
          form :=
            (if filterId \<noteq> ''none'' \<and> filterId \<notin> set (filtersApplied (form s))
             then (form s)\<lparr>fd_filter := filterId,
                           filtersApplied := filtersApplied (form s) @ [filterId]\<rparr>
             else (form s)\<lparr>fd_filter := filterId\<rparr>)\<rparr>)"

text \<open>
  The new rotation of \<^verbatim>\<open>rotateMedia\<close>. JS \<^verbatim>\<open>%\<close> takes the sign of the dividend: on
  integers it is \<open>smod\<close>.
\<close>

definition newRotation :: "string \<Rightarrow> int \<Rightarrow> int" where
  "newRotation direction r =
     (if direction = ''clockwise'' then (r + 90) smod 360 else (r - 90 + 360) smod 360)"

definition rotateMedia :: "string \<Rightarrow> MediaState \<Rightarrow> MediaState" where
  "rotateMedia direction s =
     restoreEffect
       (s\<lparr>ed := (ed s)\<lparr>rotation := newRotation direction (rotation (ed s))\<rparr>,
          form := (form s)\<lparr>fd_rotation := newRotation direction (rotation (ed s))\<rparr>\<rparr>)"

text \<open>
  The crop gesture. A pointer position is normalised against the container's rectangle.
  The container is rendered with a fixed, non-zero size; for a zero width the JS quotient
  is not a finite number, which this model does not represent. \<^verbatim>\<open>Math.min\<close> and
  \<^verbatim>\<open>Math.max\<close> return one of their arguments and do not round.
\<close>

definition handleCropStart :: "MouseEvent \<Rightarrow> Rect \<Rightarrow> MediaState \<Rightarrow> MediaState" where
  "handleCropStart e rect s =
     (if \<not> isCropping (ed s) then s
      else
        let p = \<lparr>x_coord = js_div (js_sub (clientX e) (rect_left rect)) (rect_width rect),
                 y_coord = js_div (js_sub (clientY e) (rect_top rect)) (rect_height rect)\<rparr>
        in s\<lparr>ed := (ed s)\<lparr>cropStart := p, cropEnd := p\<rparr>\<rparr>)"

definition handleCropMove :: "MouseEvent \<Rightarrow> Rect \<Rightarrow> MediaState \<Rightarrow> MediaState" where
  "handleCropMove e rect s =
     (if \<not> isCropping (ed s) then s
      else
        let p = \<lparr>x_coord =
                   min (max (js_div (js_sub (clientX e) (rect_left rect)) (rect_width rect)) 0) 1,
                 y_coord =
                   min (max (js_div (js_sub (clientY e) (rect_top rect)) (rect_height rect)) 0) 1\<rparr>
        in s\<lparr>ed := (ed s)\<lparr>cropEnd := p\<rparr>\<rparr>)"

definition minSize :: real where
  "minSize = 5 / 100"

text \<open>\<^verbatim>\<open>normalizedCrop\<close>: start is the top-left corner, end the bottom-right one.\<close>

record CropRect =
  startX :: real
  startY :: real
  endX :: real
  endY :: real

definition normalizedCrop :: "Point \<Rightarrow> Point \<Rightarrow> CropRect" where
  "normalizedCrop a b =
     \<lparr>startX = min (x_coord a) (x_coord b), startY = min (y_coord a) (y_coord b),
      endX = max (x_coord a) (x_coord b), endY = max (y_coord a) (y_coord b)\<rparr>"

text \<open>
  The canvas that \<^verbatim>\<open>handleCropEnd\<close> fills for an image of natural size \<open>img\<close>, encoded
  in the MIME type \<open>t\<close>. The source assigns the two products to \<^verbatim>\<open>canvas.width\<close> and
  \<^verbatim>\<open>canvas.height\<close> and reads the attributes back for \<^verbatim>\<open>drawImage\<close>: what it reads
  is the size the canvas has stored.
\<close>

definition cropCanvas :: "CropRect \<Rightarrow> Image \<Rightarrow> string \<Rightarrow> Raster" where
  "cropCanvas c img t =
     \<lparr>raster_width =
        canvas_size 300 (js_mul (js_sub (endX c) (startX c)) (real (naturalWidth img))),
      raster_height =
        canvas_size 150 (js_mul (js_sub (endY c) (startY c)) (real (naturalHeight img))),
      source_x = js_mul (startX c) (real (naturalWidth img)),
      source_y = js_mul (startY c) (real (naturalHeight img)),
      mime = t\<rparr>"

text \<open>
  \<^verbatim>\<open>handleCropEnd\<close>, given what \<^verbatim>\<open>imageRef.current\<close> holds. Reading
  \<^verbatim>\<open>formData.media.type\<close> throws a TypeError when \<^verbatim>\<open>formData.media\<close> is null; no
  setter has run by then. The test against \<open>minSize\<close> is taken on the exact difference
  of the two coordinates: the rounded difference can take the other side of the test
  only when the exact one lies within one unit in the last place of the threshold.
\<close>

datatype js_error = TypeError

definition handleCropEnd :: "Image option \<Rightarrow> MediaState \<Rightarrow> js_error + MediaState" where
  "handleCropEnd imageRef s =
     (if \<not> isCropping (ed s) then Inr s
      else if \<bar>x_coord (cropEnd (ed s)) - x_coord (cropStart (ed s))\<bar> < minSize
            \<or> \<bar>y_coord (cropEnd (ed s)) - y_coord (cropStart (ed s))\<bar> < minSize
      then Inr s
      else
        case imageRef of
          None \<Rightarrow> Inr s
        | Some img \<Rightarrow>
            if mediaType (form s) = ''image''
            then (case media (form s) of
                    None \<Rightarrow> Inl TypeError
                  | Some file \<Rightarrow>
                      Inr (s\<lparr>ed := (ed s)\<lparr>cropPreview :=
                        Some (cropCanvas (normalizedCrop (cropStart (ed s)) (cropEnd (ed s)))
                                img (file_type file))\<rparr>\<rparr>))
            else Inr s)"

definition applyCrop :: "MediaState \<Rightarrow> MediaState" where
  "applyCrop s =
     (case cropPreview (ed s) of
        None \<Rightarrow> s
      | Some preview \<Rightarrow>
          restoreEffect
            (s\<lparr>blobs := (if mediaUrl (form s) \<noteq> NoUrl
                          then revokeObjectURL (mediaUrl (form s)) (blobs s) else blobs s),
               form := (form s)\<lparr>mediaUrl := DataUrl preview\<rparr>,
               ed := (ed s)\<lparr>isCropping := False, cropPreview := None\<rparr>\<rparr>))"

definition cancelCrop :: "MediaState \<Rightarrow> MediaState" where
  "cancelCrop s = s\<lparr>ed := (ed s)\<lparr>isCropping := False, cropPreview := None\<rparr>\<rparr>"

definition toggleCropMode :: "MediaState \<Rightarrow> MediaState" where
  "toggleCropMode s =
     (if isCropping (ed s)
      then s\<lparr>ed := (ed s)\<lparr>isCropping := False, cropPreview := None\<rparr>\<rparr>
      else s\<lparr>ed := (ed s)\<lparr>isCropping := True, isAddingText := False\<rparr>\<rparr>)"

definition toggleTextMode :: "MediaState \<Rightarrow> MediaState" where
  "toggleTextMode s =
     (if isAddingText (ed s)
      then (if textOverlay (ed s) \<noteq> []
            then restoreEffect
                   (s\<lparr>ed := (ed s)\<lparr>isAddingText := False\<rparr>,
                      form := (form s)
                        \<lparr>fd_textOverlay := textOverlay (ed s),
                         fd_textPosition := Some (textPosition (ed s)),
                         fd_textRotation := Some (textRotation (ed s))\<rparr>\<rparr>)
            else s\<lparr>ed := (ed s)\<lparr>isAddingText := False\<rparr>\<rparr>)
      else s\<lparr>ed := (ed s)\<lparr>isAddingText := True, isCropping := False\<rparr>\<rparr>)"

definition handleTextChange :: "string \<Rightarrow> MediaState \<Rightarrow> MediaState" where
  "handleTextChange v s =
     restoreEffect
       (s\<lparr>ed := (ed s)\<lparr>textOverlay := v\<rparr>, form := (form s)\<lparr>fd_textOverlay := v\<rparr>\<rparr>)"

definition handleTextPositionChange :: "real \<Rightarrow> real \<Rightarrow> MediaState \<Rightarrow> MediaState" where
  "handleTextPositionChange x y s =
     (let newPosition = \<lparr>x_coord = max 0 (min 100 x), y_coord = max 0 (min 100 y)\<rparr>
      in restoreEffect
           (s\<lparr>ed := (ed s)\<lparr>textPosition := newPosition\<rparr>,
              form := (form s)\<lparr>fd_textPosition := Some newPosition\<rparr>\<rparr>))"

definition positionTextAtBottom :: "MediaState \<Rightarrow> MediaState" where
  "positionTextAtBottom s =
     restoreEffect
       (s\<lparr>ed := (ed s)\<lparr>textPosition := bottom_center\<rparr>,
          form := (form s)\<lparr>fd_textPosition := Some bottom_center\<rparr>\<rparr>)"

definition handleTextDragStart :: "MouseEvent \<Rightarrow> MediaState \<Rightarrow> MediaState" where
  "handleTextDragStart e s =
     (if \<not> isAddingText (ed s) then s
      else s\<lparr>ed := (ed s)
             \<lparr>dragStartPos := Some \<lparr>mouseX = clientX e, mouseY = clientY e,
                                     textX = x_coord (textPosition (ed s)),
                                     textY = y_coord (textPosition (ed s))\<rparr>,
              isDraggingText := True\<rparr>\<rparr>)"

text \<open>
  \<^verbatim>\<open>isDraggingText\<close> is set only together with \<^verbatim>\<open>dragStartPos\<close>, so the drag never
  moves from the initial \<^verbatim>\<open>{ x: 0, y: 0 }\<close> (\<open>None\<close> here), whose \<^verbatim>\<open>mouseX\<close> is
  undefined.
\<close>

definition handleTextDragMove :: "MouseEvent \<Rightarrow> Rect \<Rightarrow> MediaState \<Rightarrow> MediaState" where
  "handleTextDragMove e rect s =
     (if \<not> isDraggingText (ed s) \<or> \<not> isAddingText (ed s) then s
      else
        case dragStartPos (ed s) of
          None \<Rightarrow> s
        | Some d \<Rightarrow>
            let deltaX = js_sub (clientX e) (mouseX d);
                deltaY = js_sub (clientY e) (mouseY d);
                deltaXPercent = js_mul (js_div deltaX (rect_width rect)) 100;
                deltaYPercent = js_mul (js_div deltaY (rect_height rect)) 100
            in handleTextPositionChange
                 (js_add (textX d) deltaXPercent) (js_add (textY d) deltaYPercent) s)"

definition handleTextDragEnd :: "MediaState \<Rightarrow> MediaState" where
  "handleTextDragEnd s =
     (if isDraggingText (ed s)
      then restoreEffect
             (s\<lparr>ed := (ed s)\<lparr>isDraggingText := False\<rparr>,
                form := (form s)\<lparr>fd_textPosition := Some (textPosition (ed s))\<rparr>\<rparr>)
      else s)"

definition handleRotationStart :: "MediaState \<Rightarrow> MediaState" where
  "handleRotationStart s =
     (if \<not> isAddingText (ed s) then s else s\<lparr>ed := (ed s)\<lparr>isRotatingText := True\<rparr>\<rparr>)"

text \<open>
  \<open>angle\<close> is the value of \<^verbatim>\<open>Math.atan2(...) * (180 / Math.PI)\<close> for the pointer and the
  anchor of the overlay.
\<close>

definition handleRotationMove :: "real \<Rightarrow> MediaState \<Rightarrow> MediaState" where
  "handleRotationMove angle s =
     (if \<not> isRotatingText (ed s) \<or> \<not> isAddingText (ed s) then s
      else s\<lparr>ed := (ed s)\<lparr>textRotation := angle\<rparr>\<rparr>)"

definition handleRotationEnd :: "MediaState \<Rightarrow> MediaState" where
  "handleRotationEnd s =
     (if isRotatingText (ed s)
      then restoreEffect
             (s\<lparr>ed := (ed s)\<lparr>isRotatingText := False\<rparr>,
                form := (form s)\<lparr>fd_textRotation := Some (textRotation (ed s))\<rparr>\<rparr>)
      else s)"

definition resetEdits :: "MediaState \<Rightarrow> MediaState" where
  "resetEdits s =
     restoreEffect
       (s\<lparr>ed := (ed s)
             \<lparr>filter_id := ''none'', rotation := 0, textRotation := 0, isCropping := False,
              isAddingText := False, textOverlay := [], textPosition := bottom_center\<rparr>,
          form := (form s)
             \<lparr>fd_filter := ''none'', fd_rotation := 0, fd_textRotation := Some 0,
              fd_textOverlay := [], fd_textPosition := Some bottom_center,
              filtersApplied := []\<rparr>\<rparr>)"

definition saveEdits :: "MediaState \<Rightarrow> MediaState" where
  "saveEdits s =
     restoreEffect
       (s\<lparr>form := (form s)
             \<lparr>editsSaved := True, fd_textOverlay := textOverlay (ed s),
              fd_textPosition := Some (textPosition (ed s)),
              fd_textRotation := Some (textRotation (ed s)),
              fd_filter := filter_id (ed s), fd_rotation := rotation (ed s)\<rparr>\<rparr>)"

text \<open>
  An exception thrown by an event handler leaves the state of the render it ran in.
\<close>

definition settle :: "MediaState \<Rightarrow> js_error + MediaState \<Rightarrow> MediaState" where
  "settle s r = (case r of Inl _ \<Rightarrow> s | Inr s' \<Rightarrow> s')"

text \<open>The inline handlers of the preview container.\<close>

definition onMouseDown :: "MouseEvent \<Rightarrow> Rect \<Rightarrow> MediaState \<Rightarrow> MediaState" where
  "onMouseDown e rect s = (if isCropping (ed s) then handleCropStart e rect s else s)"

definition onMouseMove :: "MouseEvent \<Rightarrow> Rect \<Rightarrow> real \<Rightarrow> MediaState \<Rightarrow> MediaState" where
  "onMouseMove e rect angle s =
     (if isDraggingText (ed s) then handleTextDragMove e rect s
      else if isRotatingText (ed s) then handleRotationMove angle s
      else if isCropping (ed s) then handleCropMove e rect s
      else s)"

definition onMouseUp :: "Image option \<Rightarrow> MediaState \<Rightarrow> MediaState" where
  "onMouseUp imageRef s =
     (if isDraggingText (ed s) then handleTextDragEnd s
      else if isRotatingText (ed s) then handleRotationEnd s
      else if isCropping (ed s) then settle s (handleCropEnd imageRef s)
      else s)"

text \<open>\<^verbatim>\<open>onMouseLeave\<close> has the body of \<^verbatim>\<open>onMouseUp\<close>.\<close>

definition onMouseLeave :: "Image option \<Rightarrow> MediaState \<Rightarrow> MediaState" where
  "onMouseLeave imageRef s = onMouseUp imageRef s"

text \<open>
  A press on the text overlay or on its rotation handle. The handlers stop the
  propagation only in text mode; otherwise the press bubbles up to the container.
\<close>

definition onTextMouseDown :: "MouseEvent \<Rightarrow> Rect \<Rightarrow> MediaState \<Rightarrow> MediaState" where
  "onTextMouseDown e rect s =
     (if isAddingText (ed s) then handleTextDragStart e s else onMouseDown e rect s)"

definition onHandleMouseDown :: "MouseEvent \<Rightarrow> Rect \<Rightarrow> MediaState \<Rightarrow> MediaState" where
  "onHandleMouseDown e rect s =
     (if isAddingText (ed s) then handleRotationStart s else onTextMouseDown e rect s)"

definition retryCamera :: "MediaState \<Rightarrow> MediaState" where
  "retryCamera s = s\<lparr>ed := (ed s)\<lparr>cameraError := []\<rparr>\<rparr>"

definition toggleEmojiPicker :: "MediaState \<Rightarrow> MediaState" where
  "toggleEmojiPicker s = s\<lparr>ed := (ed s)\<lparr>showEmojiPicker := \<not> showEmojiPicker (ed s)\<rparr>\<rparr>"

definition onEmojiClick :: "string \<Rightarrow> MediaState \<Rightarrow> MediaState" where
  "onEmojiClick emoji s =
     restoreEffect
       (s\<lparr>ed := (ed s)\<lparr>textOverlay := textOverlay (ed s) @ emoji, showEmojiPicker := False\<rparr>,
          form := (form s)\<lparr>fd_textOverlay := textOverlay (ed s) @ emoji\<rparr>\<rparr>)"

definition resetTextRotation :: "MediaState \<Rightarrow> MediaState" where
  "resetTextRotation s =
     restoreEffect
       (s\<lparr>ed := (ed s)\<lparr>textRotation := 0\<rparr>, form := (form s)\<lparr>fd_textRotation := Some 0\<rparr>\<rparr>)"

text \<open>
  Everything the user can do to the step, with the values the browser supplies: the
  files of a drop or of a file input, the pointer and the container's rectangle, the
  image behind \<^verbatim>\<open>imageRef\<close>. \<open>Remount\<close> is leaving the step and coming back.
\<close>

datatype media_event =
    DragEnter
  | DragLeave
  | Drop "File list"
  | FileInputChange "File list"
  | RetryCamera
  | CreateTextOnlyCaption
  | RemoveMedia
  | MouseDown MouseEvent Rect
  | MouseMove MouseEvent Rect real
  | MouseUp "Image option"
  | MouseLeave "Image option"
  | TextMouseDown MouseEvent Rect
  | HandleMouseDown MouseEvent Rect
  | ApplyCrop
  | CancelCrop
  | ApplyFilter string
  | RotateMedia string
  | ToggleCropMode
  | ToggleTextMode
  | ResetEdits
  | SaveEdits
  | TextChange string
  | ToggleEmojiPicker
  | EmojiClick string
  | ResetTextRotation
  | PositionTextAtBottom
  | Remount

fun handle :: "media_event \<Rightarrow> MediaState \<Rightarrow> MediaState" where
  "handle DragEnter s = handleDragEnter s"
| "handle DragLeave s = handleDragLeave s"
| "handle (Drop files) s = handleDrop files s"
| "handle (FileInputChange files) s = handleFileInputChange files s"
| "handle RetryCamera s = retryCamera s"
| "handle CreateTextOnlyCaption s = createTextOnlyCaption s"
| "handle RemoveMedia s = removeMedia s"
| "handle (MouseDown e rect) s = onMouseDown e rect s"
| "handle (MouseMove e rect angle) s = onMouseMove e rect angle s"
| "handle (MouseUp imageRef) s = onMouseUp imageRef s"
| "handle (MouseLeave imageRef) s = onMouseLeave imageRef s"
| "handle (TextMouseDown e rect) s = onTextMouseDown e rect s"
| "handle (HandleMouseDown e rect) s = onHandleMouseDown e rect s"
| "handle ApplyCrop s = applyCrop s"
| "handle CancelCrop s = cancelCrop s"
| "handle (ApplyFilter filterId) s = applyFilter filterId s"
| "handle (RotateMedia direction) s = rotateMedia direction s"
| "handle ToggleCropMode s = toggleCropMode s"
| "handle ToggleTextMode s = toggleTextMode s"
| "handle ResetEdits s = resetEdits s"
| "handle SaveEdits s = saveEdits s"
| "handle (TextChange v) s = handleTextChange v s"
| "handle ToggleEmojiPicker s = toggleEmojiPicker s"
| "handle (EmojiClick emoji) s = onEmojiClick emoji s"
| "handle ResetTextRotation s = resetTextRotation s"
| "handle PositionTextAtBottom s = positionTextAtBottom s"
| "handle Remount s = mount s"

fun interact :: "media_event list \<Rightarrow> MediaState \<Rightarrow> MediaState" where
  "interact [] s = s"
| "interact (ev # evs) s = interact evs (handle ev s)"

text \<open>The editor after the interactions \<open>evs\<close>, starting from the first mount.\<close>

definition editor_after :: "media_event list \<Rightarrow> MediaState" where
  "editor_after evs = interact evs (mount initial_media)"

text \<open>Crop mode and text mode are not both on.\<close>

definition modes_exclusive :: "MediaState \<Rightarrow> bool" where
  "modes_exclusive s = (\<not> (isCropping (ed s) \<and> isAddingText (ed s)))"

text \<open>The rotations of the data model.\<close>

definition quarter_turns :: "int set" where
  "quarter_turns = {0, 90, 180, 270}"

text \<open>Both copies of the rotation, the local cell and the \<^verbatim>\<open>formData\<close> key, are quarter turns.\<close>

definition rotation_ok :: "MediaState \<Rightarrow> bool" where
  "rotation_ok s = (rotation (ed s) \<in> quarter_turns \<and> fd_rotation (form s) \<in> quarter_turns)"

text \<open>Sample inputs: two files, a container of 800 by 320 pixels, an image of 1000 by 500.\<close>

definition sample_jpeg :: File where
  "sample_jpeg = \<lparr>file_type = ''image/jpeg'', file_size = 204800\<rparr>"

definition sample_png :: File where
  "sample_png = \<lparr>file_type = ''image/png'', file_size = 102400\<rparr>"

definition sample_rect :: Rect where
  "sample_rect = \<lparr>rect_left = 0, rect_top = 0, rect_width = 800, rect_height = 320\<rparr>"

definition sample_image :: Image where
  "sample_image = \<lparr>naturalWidth = 1000, naturalHeight = 500\<rparr>"

text \<open>
  A crop gesture on a selected JPEG: press at \<open>p\<close>, move to \<open>q\<close> (client pixels in
  \<open>sample_rect\<close>).
\<close>

definition crop_gesture :: "MouseEvent \<Rightarrow> MouseEvent \<Rightarrow> media_event list" where
  "crop_gesture p q =
     [FileInputChange [sample_jpeg], ToggleCropMode, MouseDown p sample_rect,
      MouseMove q sample_rect 0]"

section \<open>Properties of the wizard state machine\<close>

subsection \<open>The completed steps are a prefix of the step list\<close>

lemma map_of_all_true:
  "map_of (all_true ks) k = (if k \<in> set ks then Some True else None)"
  by (induction ks) (auto simp: all_true_def)

lemma update_all_true_old:
  "k \<in> set ks \<Longrightarrow> AList.update k True (all_true ks) = all_true ks"
  by (rule update_triv) (simp add: map_of_all_true)

lemma update_all_true_new:
  "k \<notin> set ks \<Longrightarrow> AList.update k True (all_true ks) = all_true (ks @ [k])"
  by (induction ks) (auto simp: all_true_def)

lemma length_all_true: "length (all_true ks) = length ks"
  by (simp add: all_true_def)

lemma nth_in_take_iff:
  assumes "distinct xs" "i < length xs"
  shows "xs ! i \<in> set (take m xs) \<longleftrightarrow> i < m"
proof
  assume "xs ! i \<in> set (take m xs)"
  then obtain j where j: "j < length (take m xs)" "take m xs ! j = xs ! i"
    by (auto simp: in_set_conv_nth)
  then have "j < m" "j < length xs" "xs ! j = xs ! i" by auto
  with assms have "j = i" by (simp add: nth_eq_iff_index_eq)
  with \<open>j < m\<close> show "i < m" by simp
next
  assume "i < m"
  with assms(2) have "i < length (take m xs)" by simp
  then have "take m xs ! i \<in> set (take m xs)" by (rule nth_mem)
  with \<open>i < m\<close> show "xs ! i \<in> set (take m xs)" by simp
qed

lemma prefix_inv_initial: "prefix_inv steps (initial_state d)"
  by (simp add: prefix_inv_def initial_state_def all_true_def)

lemma id_at_nth:
  "0 \<le> i \<Longrightarrow> i < int (length steps) \<Longrightarrow> id_at steps i = step_ids steps ! nat i"
  by (simp add: id_at_def step_ids_def)

lemma prefix_inv_goToNextStep:
  assumes d: "distinct (step_ids steps)" and inv: "prefix_inv steps s"
  shows "prefix_inv steps (goToNextStep steps s)"
proof (cases "currentStep s < totalSteps steps - 1")
  case False
  then show ?thesis using inv by (simp add: goToNextStep_def)
next
  case guard: True
  let ?ids = "step_ids steps"
  let ?m = "length (completedSteps s)"
  let ?c = "nat (currentStep s)"
  have n: "length ?ids = length steps" by (simp add: step_ids_def)
  from inv have cs: "completedSteps s = all_true (take ?m ?ids)"
    and c0: "0 \<le> currentStep s" and cm: "currentStep s \<le> int ?m"
    by (simp_all add: prefix_inv_def)
  from guard c0 have cn: "Suc ?c < length steps" by (simp add: totalSteps_def)
  have key: "currentStepId steps s = ?ids ! ?c"
    using c0 cn by (simp add: currentStepId_def id_at_nth)
  show ?thesis
  proof (cases "?c < ?m")
    case True
    then have "?ids ! ?c \<in> set (take ?m ?ids)"
      using d cn n by (simp add: nth_in_take_iff)
    then have "map_of (completedSteps s) (?ids ! ?c) = Some True"
      by (subst cs) (simp add: map_of_all_true)
    then have "AList.update (?ids ! ?c) True (completedSteps s) = completedSteps s"
      by (rule update_triv)
    then show ?thesis
      using inv True c0 cn by (auto simp add: goToNextStep_def key prefix_inv_def guard)
  next
    case False
    with cm c0 have cm': "?c = ?m" by simp
    have "?ids ! ?c \<notin> set (take ?m ?ids)"
      using d cn n cm' by (simp add: nth_in_take_iff)
    then have "AList.update (?ids ! ?c) True (all_true (take ?m ?ids)) = all_true (take ?m ?ids @ [?ids ! ?c])"
      by (rule update_all_true_new)
    also have "take ?m ?ids @ [?ids ! ?c] = take (Suc ?m) ?ids"
      using cm' cn n by (simp add: take_Suc_conv_app_nth)
    finally have upd: "AList.update (?ids ! ?c) True (completedSteps s) = all_true (take (Suc ?m) ?ids)"
      using cs by simp
    have len: "length (all_true (take (Suc ?m) ?ids)) = Suc ?m"
      using cm' cn n by (simp add: length_all_true)
    show ?thesis
      unfolding goToNextStep_def prefix_inv_def key upd
      using c0 cn cm' len guard by simp
  qed
qed

lemma prefix_inv_goToPrevStep: "prefix_inv steps s \<Longrightarrow> prefix_inv steps (goToPrevStep s)"
  by (simp add: prefix_inv_def goToPrevStep_def)

lemma prefix_inv_goToStep: "prefix_inv steps s \<Longrightarrow> prefix_inv steps (goToStep steps k s)"
  by (auto simp add: prefix_inv_def goToStep_def isCompletedStep_def isNextAvailableStep_def keys_length_def)

lemma prefix_inv_updateFormData: "prefix_inv steps s \<Longrightarrow> prefix_inv steps (updateFormData p s)"
  by (simp add: prefix_inv_def updateFormData_def)

lemma prefix_inv_resetWizard: "prefix_inv steps (resetWizard p s)"
  by (simp add: prefix_inv_def resetWizard_def all_true_def)

lemma prefix_inv_perform:
  "distinct (step_ids steps) \<Longrightarrow> prefix_inv steps s \<Longrightarrow> prefix_inv steps (perform steps ev s)"
  by (cases ev)
    (simp_all add: prefix_inv_goToNextStep prefix_inv_goToPrevStep prefix_inv_goToStep
      prefix_inv_updateFormData prefix_inv_resetWizard)

lemma prefix_inv_run_ops:
  "distinct (step_ids steps) \<Longrightarrow> prefix_inv steps s \<Longrightarrow> prefix_inv steps (run_ops steps evs s)"
  by (induction evs arbitrary: s) (simp_all add: prefix_inv_perform)

lemma prefix_inv_wizard_after:
  "distinct (step_ids steps) \<Longrightarrow> prefix_inv steps (wizard_after steps d evs)"
  by (simp add: wizard_after_def prefix_inv_run_ops prefix_inv_initial)

subsection \<open>The keys of the completed steps stay distinct\<close>

text \<open>
  The association list is only ever built by \<open>AList.update\<close> from the empty list:
  its keys are distinct for every step list, so its length is the number of keys that
  \<^verbatim>\<open>Object.keys\<close> returns.
\<close>

lemma keys_distinct_perform:
  "distinct (map fst (completedSteps s)) \<Longrightarrow>
   distinct (map fst (completedSteps (perform steps ev s)))"
  by (cases ev)
    (simp_all add: goToNextStep_def goToPrevStep_def goToStep_def updateFormData_def
      resetWizard_def distinct_update)

lemma keys_distinct_run_ops:
  "distinct (map fst (completedSteps s)) \<Longrightarrow>
   distinct (map fst (completedSteps (run_ops steps evs s)))"
  by (induction evs arbitrary: s) (simp_all add: keys_distinct_perform)

lemma keys_distinct_wizard_after:
  "distinct (map fst (completedSteps (wizard_after steps initialData evs)))"
  unfolding wizard_after_def
  by (rule keys_distinct_run_ops) (simp add: initial_state_def)

subsection \<open>The current step stays in range\<close>

lemma range_inv_perform:
  "0 \<le> currentStep s \<and> currentStep s < totalSteps steps \<Longrightarrow>
   0 \<le> currentStep (perform steps ev s) \<and> currentStep (perform steps ev s) < totalSteps steps"
  by (cases ev)
    (auto simp add: goToNextStep_def goToPrevStep_def goToStep_def updateFormData_def
      resetWizard_def)

lemma range_inv_run_ops:
  "0 \<le> currentStep s \<and> currentStep s < totalSteps steps \<Longrightarrow>
   0 \<le> currentStep (run_ops steps evs s) \<and> currentStep (run_ops steps evs s) < totalSteps steps"
proof (induction evs arbitrary: s)
  case Nil
  then show ?case by simp
next
  case (Cons ev evs)
  from Cons.prems have "0 \<le> currentStep (perform steps ev s) \<and> currentStep (perform steps ev s) < totalSteps steps"
    by (rule range_inv_perform)
  then show ?case using Cons.IH by simp
qed

text \<open>
  Claim C6. For a wizard mounted with a non-empty step list, after any sequence of
  \<open>goToNextStep\<close>, \<open>goToPrevStep\<close>, \<open>goToStep\<close>, \<open>updateFormData\<close> and \<open>resetWizard\<close> the
  current step index is at least \<open>0\<close> and less than the number of steps.
\<close>

theorem currentStep_in_range:
  assumes "steps \<noteq> []"
  shows "0 \<le> currentStep (wizard_after steps initialData evs)
       \<and> currentStep (wizard_after steps initialData evs) < totalSteps steps"
proof -
  from assms have "0 \<le> currentStep (initial_state initialData)
      \<and> currentStep (initial_state initialData) < totalSteps steps"
    by (simp add: initial_state_def totalSteps_def)
  then show ?thesis
    unfolding wizard_after_def by (rule range_inv_run_ops)
qed

lemma WIZARD_STEPS_ids:
  "step_ids WIZARD_STEPS =
     [''upload_media'', ''select_niche'', ''platform'', ''goal'', ''tone'', ''generated_captions'']"
  by (simp add: step_ids_def WIZARD_STEPS_def)

lemma WIZARD_STEPS_distinct: "distinct (step_ids WIZARD_STEPS)"
  by (simp add: WIZARD_STEPS_ids)

text \<open>
  The theorem of C6 on the caption wizard, for a run that tries to leave the range in
  both directions.
\<close>

theorem currentStep_in_range_witness:
  "WIZARD_STEPS \<noteq> []
   \<and> 0 \<le> currentStep (wizard_after WIZARD_STEPS (empty_object :: string \<rightharpoonup> string)
            [GoToNextStep, GoToStep 7, GoToPrevStep, GoToPrevStep])
   \<and> currentStep (wizard_after WIZARD_STEPS (empty_object :: string \<rightharpoonup> string)
            [GoToNextStep, GoToStep 7, GoToPrevStep, GoToPrevStep]) < totalSteps WIZARD_STEPS"
  using currentStep_in_range [of WIZARD_STEPS "empty_object :: string \<rightharpoonup> string"
      "[GoToNextStep, GoToStep 7, GoToPrevStep, GoToPrevStep]"]
  by (simp add: WIZARD_STEPS_def)

subsection \<open>Jumping to a step\<close>

lemma isStepCompleted_iff:
  assumes d: "distinct (step_ids steps)" and inv: "prefix_inv steps s"
    and k: "0 \<le> k" "k < totalSteps steps"
  shows "isStepCompleted steps k s \<longleftrightarrow> k < keys_length (completedSteps s)"
proof -
  let ?ids = "step_ids steps"
  let ?m = "length (completedSteps s)"
  have n: "length ?ids = length steps" by (simp add: step_ids_def)
  from inv have cs: "completedSteps s = all_true (take ?m ?ids)"
    by (simp add: prefix_inv_def)
  from k have kn: "nat k < length ?ids" by (simp add: totalSteps_def n)
  have "isStepCompleted steps k s \<longleftrightarrow> map_of (completedSteps s) (?ids ! nat k) = Some True"
    using k by (simp add: isStepCompleted_def id_at_nth totalSteps_def)
  also have "\<dots> \<longleftrightarrow> ?ids ! nat k \<in> set (take ?m ?ids)"
    by (subst cs) (simp add: map_of_all_true)
  also have "\<dots> \<longleftrightarrow> nat k < ?m"
    using d kn by (rule nth_in_take_iff)
  also have "\<dots> \<longleftrightarrow> k < keys_length (completedSteps s)"
    using k(1) unfolding keys_length_def by linarith
  finally show ?thesis .
qed

text \<open>
  Claim C1. In every state \<open>s\<close> that a wizard over distinct step ids reaches from its mount,
  and for every index \<open>k\<close>: \<open>goToStep k\<close> sets the current step index to \<open>k\<close>, changing
  nothing else, if \<open>k\<close> is within bounds and step \<open>k\<close> is completed or \<open>k\<close> is the number of
  completed steps; in every other case it returns \<open>s\<close> itself.
\<close>

theorem goToStep_spec:
  assumes "distinct (step_ids steps)"
    and "s = wizard_after steps initialData evs"
  shows "goToStep steps k s =
     (if 0 \<le> k \<and> k < totalSteps steps
         \<and> (isStepCompleted steps k s \<or> k = keys_length (completedSteps s))
      then s\<lparr>currentStep := k\<rparr>
      else s)"
proof (cases "0 \<le> k \<and> k < totalSteps steps")
  case False
  then show ?thesis by (auto simp add: goToStep_def)
next
  case True
  from assms have "prefix_inv steps s" by (simp add: prefix_inv_wizard_after)
  with assms(1) True have "isStepCompleted steps k s \<longleftrightarrow> k < keys_length (completedSteps s)"
    by (simp add: isStepCompleted_iff)
  then show ?thesis
    by (auto simp add: goToStep_def isCompletedStep_def isNextAvailableStep_def)
qed

text \<open>
  The theorem of C1 on the caption wizard after two steps forward and one back: a jump
  to the next step not yet visited is taken, a jump beyond it is ignored.
\<close>

theorem goToStep_spec_witness:
  "distinct (step_ids WIZARD_STEPS)
   \<and> goToStep WIZARD_STEPS 2
        (wizard_after WIZARD_STEPS (empty_object :: string \<rightharpoonup> string) [GoToNextStep, GoToNextStep, GoToPrevStep])
      = (wizard_after WIZARD_STEPS empty_object [GoToNextStep, GoToNextStep, GoToPrevStep])\<lparr>currentStep := 2\<rparr>
   \<and> goToStep WIZARD_STEPS 3
        (wizard_after WIZARD_STEPS (empty_object :: string \<rightharpoonup> string) [GoToNextStep, GoToNextStep, GoToPrevStep])
      = wizard_after WIZARD_STEPS empty_object [GoToNextStep, GoToNextStep, GoToPrevStep]"
  using goToStep_spec [of WIZARD_STEPS _ "empty_object :: string \<rightharpoonup> string"
      "[GoToNextStep, GoToNextStep, GoToPrevStep]" 2]
    goToStep_spec [of WIZARD_STEPS _ "empty_object :: string \<rightharpoonup> string"
      "[GoToNextStep, GoToNextStep, GoToPrevStep]" 3]
  by (simp add: step_ids_def wizard_after_def initial_state_def goToNextStep_def
      goToPrevStep_def totalSteps_def currentStepId_def id_at_def isStepCompleted_def
      keys_length_def WIZARD_STEPS_def)

text \<open>
  The step ids have to be distinct, as the data model says they are. The provider does
  not check it: over the ids \<open>a, b, a\<close>, after one step forward, step \<open>2\<close> tests as
  completed (it shares its id with step \<open>0\<close>) and \<open>goToStep 2\<close> is ignored, because
  \<open>goToStep\<close> counts the completed ids and does not look step \<open>2\<close> up.
\<close>

lemma goToStep_duplicate_ids:
  "\<not> distinct (step_ids
      [\<lparr>step_id = ''a'', label = ''A''\<rparr>, \<lparr>step_id = ''b'', label = ''B''\<rparr>,
       \<lparr>step_id = ''a'', label = ''C''\<rparr>])
   \<and> isStepCompleted
        [\<lparr>step_id = ''a'', label = ''A''\<rparr>, \<lparr>step_id = ''b'', label = ''B''\<rparr>,
         \<lparr>step_id = ''a'', label = ''C''\<rparr>] 2
        (wizard_after
          [\<lparr>step_id = ''a'', label = ''A''\<rparr>, \<lparr>step_id = ''b'', label = ''B''\<rparr>,
           \<lparr>step_id = ''a'', label = ''C''\<rparr>] (empty_object :: string \<rightharpoonup> string) [GoToNextStep])
   \<and> goToStep
        [\<lparr>step_id = ''a'', label = ''A''\<rparr>, \<lparr>step_id = ''b'', label = ''B''\<rparr>,
         \<lparr>step_id = ''a'', label = ''C''\<rparr>] 2
        (wizard_after
          [\<lparr>step_id = ''a'', label = ''A''\<rparr>, \<lparr>step_id = ''b'', label = ''B''\<rparr>,
           \<lparr>step_id = ''a'', label = ''C''\<rparr>] (empty_object :: string \<rightharpoonup> string) [GoToNextStep])
      = wizard_after
          [\<lparr>step_id = ''a'', label = ''A''\<rparr>, \<lparr>step_id = ''b'', label = ''B''\<rparr>,
           \<lparr>step_id = ''a'', label = ''C''\<rparr>] (empty_object :: string \<rightharpoonup> string) [GoToNextStep]"
  by (simp add: step_ids_def wizard_after_def initial_state_def goToNextStep_def
      totalSteps_def currentStepId_def id_at_def isStepCompleted_def goToStep_def
      isCompletedStep_def isNextAvailableStep_def keys_length_def)

subsection \<open>Mounting the provider\<close>

text \<open>
  Claim C4, amended. Initialisation never fails. For every step list, the empty one
  included, and every initial data, mounting the provider yields the state with
  \<open>currentStep = 0\<close>, \<open>formData = initialData\<close> and no completed step.
\<close>

theorem WizardProvider_total:
  "WizardProvider steps initialData =
     Some \<lparr>currentStep = 0, formData = initialData, completedSteps = []\<rparr>"
  by (simp add: WizardProvider_def initial_state_def)

text \<open>
  Claim C4, as stated, fails: mounting the provider with the empty step list does not fail.
  It returns a state like any other mount.
\<close>

theorem WizardProvider_empty_steps_returns:
  "WizardProvider [] (empty_object :: string \<rightharpoonup> string) \<noteq> None"
  by (simp add: WizardProvider_def)

subsection \<open>Advancing\<close>

text \<open>
  Claim C5. Let \<open>i\<close> be the current step index of a state over \<open>n\<close> steps, with
  \<open>0 \<le> i < n\<close>. If \<open>i = n - 1\<close>, \<open>goToNextStep\<close> returns the state unchanged. Otherwise
  it records the id of step \<open>i\<close>, the step being left, in \<open>completedSteps\<close> (the
  dictionary becomes the old one with that id mapped to true, so step \<open>i\<close> tests as
  completed), sets the index to \<open>i + 1\<close> and leaves \<open>formData\<close> as it was.
\<close>

theorem goToNextStep_spec:
  assumes "0 \<le> currentStep s" and "currentStep s < totalSteps steps"
  shows "(currentStep s = totalSteps steps - 1 \<longrightarrow> goToNextStep steps s = s)
       \<and> (currentStep s \<noteq> totalSteps steps - 1 \<longrightarrow>
            goToNextStep steps s =
              s\<lparr>completedSteps :=
                   AList.update (step_id (steps ! nat (currentStep s))) True (completedSteps s),
                 currentStep := currentStep s + 1\<rparr>
            \<and> map_of (completedSteps (goToNextStep steps s)) =
                (map_of (completedSteps s))(step_id (steps ! nat (currentStep s)) \<mapsto> True)
            \<and> isStepCompleted steps (currentStep s) (goToNextStep steps s)
            \<and> currentStep (goToNextStep steps s) = currentStep s + 1
            \<and> formData (goToNextStep steps s) = formData s)"
  using assms
  by (auto simp add: goToNextStep_def currentStepId_def id_at_def totalSteps_def
      isStepCompleted_def update_conv')

text \<open>
  The theorem of C5 on the caption wizard: from the first of its six steps and from the
  last one.
\<close>

theorem goToNextStep_spec_witness:
  "0 \<le> currentStep (initial_state (empty_object :: string \<rightharpoonup> string))
   \<and> currentStep (initial_state (empty_object :: string \<rightharpoonup> string)) < totalSteps WIZARD_STEPS
   \<and> goToNextStep WIZARD_STEPS (initial_state (empty_object :: string \<rightharpoonup> string))
       = \<lparr>currentStep = 1, formData = empty_object, completedSteps = [(''upload_media'', True)]\<rparr>
   \<and> goToNextStep WIZARD_STEPS
         \<lparr>currentStep = 5, formData = (empty_object :: string \<rightharpoonup> string), completedSteps = []\<rparr>
       = \<lparr>currentStep = 5, formData = empty_object, completedSteps = []\<rparr>"
  using goToNextStep_spec [of "initial_state (empty_object :: string \<rightharpoonup> string)" WIZARD_STEPS]
    goToNextStep_spec [of "\<lparr>currentStep = 5, formData = (empty_object :: string \<rightharpoonup> string), completedSteps = []\<rparr>" WIZARD_STEPS]
  by (simp add: initial_state_def totalSteps_def WIZARD_STEPS_def)

subsection \<open>Completion is monotone and ordered\<close>

lemma length_update_ge: "length al \<le> length (AList.update k v al)"
  by (induction al) simp_all

lemma perform_keeps_completed:
  assumes "prefix_inv steps s" "distinct (step_ids steps)" "\<forall>d. ev \<noteq> ResetWizard d"
  shows "set (completedSteps s) \<subseteq> set (completedSteps (perform steps ev s))"
proof (cases ev)
  case GoToNextStep
  have "prefix_inv steps (goToNextStep steps s)"
    using assms(2,1) by (rule prefix_inv_goToNextStep)
  then have a: "completedSteps (goToNextStep steps s) =
      all_true (take (length (completedSteps (goToNextStep steps s))) (step_ids steps))"
    by (simp add: prefix_inv_def)
  from assms(1) have b: "completedSteps s =
      all_true (take (length (completedSteps s)) (step_ids steps))"
    by (simp add: prefix_inv_def)
  have "length (completedSteps s) \<le> length (completedSteps (goToNextStep steps s))"
    by (simp add: goToNextStep_def length_update_ge)
  then have "set (take (length (completedSteps s)) (step_ids steps))
      \<subseteq> set (take (length (completedSteps (goToNextStep steps s))) (step_ids steps))"
    by (rule set_take_subset_set_take)
  then have "set (all_true (take (length (completedSteps s)) (step_ids steps)))
      \<subseteq> set (all_true (take (length (completedSteps (goToNextStep steps s))) (step_ids steps)))"
    by (auto simp add: all_true_def)
  with a b show ?thesis using GoToNextStep by simp
next
  case (ResetWizard d)
  with assms(3) show ?thesis by simp
qed (simp_all add: goToPrevStep_def goToStep_def updateFormData_def)

text \<open>
  Claim C2, amended. For a step list with pairwise distinct ids, in every state that is
  reached from the mount by any sequence of operations: \<open>completedSteps\<close> holds exactly
  the ids of the first \<open>m\<close> steps, in ascending order and each mapped to true, where \<open>m\<close>
  is its number of keys; an operation other than a reset loses none of its entries; and
  for an index \<open>k\<close> within bounds, step \<open>k\<close> is completed if and only if \<open>k < m\<close>, so
  that the count test \<open>m \<ge> k\<close> of \<open>goToStep\<close> holds exactly when step \<open>k\<close> is completed
  or \<open>k = m\<close>.
\<close>

theorem completedSteps_prefix:
  assumes "distinct (step_ids steps)"
  shows "completedSteps (wizard_after steps initialData evs) =
           all_true (take (length (completedSteps (wizard_after steps initialData evs))) (step_ids steps))
       \<and> fst ` set (completedSteps (wizard_after steps initialData evs)) =
           set (take (length (completedSteps (wizard_after steps initialData evs))) (step_ids steps))
       \<and> ((\<forall>d. ev \<noteq> ResetWizard d) \<longrightarrow>
            set (completedSteps (wizard_after steps initialData evs))
              \<subseteq> set (completedSteps (perform steps ev (wizard_after steps initialData evs))))
       \<and> (0 \<le> k \<and> k < totalSteps steps \<longrightarrow>
            (isStepCompleted steps k (wizard_after steps initialData evs)
               \<longleftrightarrow> k < keys_length (completedSteps (wizard_after steps initialData evs)))
          \<and> (isCompletedStep (wizard_after steps initialData evs) k
               \<longleftrightarrow> isStepCompleted steps k (wizard_after steps initialData evs)
                    \<or> isNextAvailableStep (wizard_after steps initialData evs) k))"
proof -
  let ?s = "wizard_after steps initialData evs"
  have inv: "prefix_inv steps ?s"
    using assms by (rule prefix_inv_wizard_after)
  then have p1: "completedSteps ?s = all_true (take (length (completedSteps ?s)) (step_ids steps))"
    by (simp add: prefix_inv_def)
  have "fst ` set (all_true (take (length (completedSteps ?s)) (step_ids steps))) =
      set (take (length (completedSteps ?s)) (step_ids steps))"
    by (force simp add: all_true_def)
  with p1 have p2: "fst ` set (completedSteps ?s) =
      set (take (length (completedSteps ?s)) (step_ids steps))"
    by simp
  have p3: "(\<forall>d. ev \<noteq> ResetWizard d) \<longrightarrow>
      set (completedSteps ?s) \<subseteq> set (completedSteps (perform steps ev ?s))"
    using inv assms by (simp add: perform_keeps_completed)
  have p4: "0 \<le> k \<and> k < totalSteps steps \<longrightarrow>
      (isStepCompleted steps k ?s \<longleftrightarrow> k < keys_length (completedSteps ?s))
      \<and> (isCompletedStep ?s k \<longleftrightarrow> isStepCompleted steps k ?s \<or> isNextAvailableStep ?s k)"
  proof
    assume k: "0 \<le> k \<and> k < totalSteps steps"
    with assms inv have "isStepCompleted steps k ?s \<longleftrightarrow> k < keys_length (completedSteps ?s)"
      by (simp add: isStepCompleted_iff)
    then show "(isStepCompleted steps k ?s \<longleftrightarrow> k < keys_length (completedSteps ?s))
      \<and> (isCompletedStep ?s k \<longleftrightarrow> isStepCompleted steps k ?s \<or> isNextAvailableStep ?s k)"
      by (auto simp add: isCompletedStep_def isNextAvailableStep_def)
  qed
  from p1 p2 p3 p4 show ?thesis by blast
qed

text \<open>
  The theorem of C2 on the caption wizard after two steps forward and one back.
\<close>

theorem completedSteps_prefix_witness:
  "distinct (step_ids WIZARD_STEPS)
   \<and> completedSteps (wizard_after WIZARD_STEPS (empty_object :: string \<rightharpoonup> string)
        [GoToNextStep, GoToNextStep, GoToPrevStep])
      = all_true (take 2 (step_ids WIZARD_STEPS))
   \<and> (\<forall>d. GoToStep 0 \<noteq> (ResetWizard d :: string wizard_op))
   \<and> (0 \<le> (2::int) \<and> 2 < totalSteps WIZARD_STEPS)
   \<and> isCompletedStep (wizard_after WIZARD_STEPS (empty_object :: string \<rightharpoonup> string)
        [GoToNextStep, GoToNextStep, GoToPrevStep]) 2
   \<and> \<not> isStepCompleted WIZARD_STEPS 2 (wizard_after WIZARD_STEPS (empty_object :: string \<rightharpoonup> string)
        [GoToNextStep, GoToNextStep, GoToPrevStep])
   \<and> isNextAvailableStep (wizard_after WIZARD_STEPS (empty_object :: string \<rightharpoonup> string)
        [GoToNextStep, GoToNextStep, GoToPrevStep]) 2"
  using completedSteps_prefix [of WIZARD_STEPS "empty_object :: string \<rightharpoonup> string"
      "[GoToNextStep, GoToNextStep, GoToPrevStep]" "GoToStep 0" 2]
  by (simp add: step_ids_def all_true_def wizard_after_def initial_state_def goToNextStep_def
      goToPrevStep_def totalSteps_def currentStepId_def id_at_def isNextAvailableStep_def
      keys_length_def WIZARD_STEPS_def)

text \<open>
  Claim C2, as stated, fails in its last part: the count test of \<open>goToStep\<close> does not
  coincide with membership. After one step forward in the caption wizard the test holds
  for index \<open>1\<close>, and step \<open>1\<close> is not completed.
\<close>

theorem count_test_not_membership:
  "distinct (step_ids WIZARD_STEPS)
   \<and> isCompletedStep (wizard_after WIZARD_STEPS (empty_object :: string \<rightharpoonup> string) [GoToNextStep]) 1
   \<and> \<not> isStepCompleted WIZARD_STEPS 1
         (wizard_after WIZARD_STEPS (empty_object :: string \<rightharpoonup> string) [GoToNextStep])"
  by (simp add: step_ids_def wizard_after_def initial_state_def goToNextStep_def
      totalSteps_def currentStepId_def id_at_def isCompletedStep_def isStepCompleted_def
      keys_length_def WIZARD_STEPS_def)

section \<open>Properties of the media edit engine\<close>

subsection \<open>Crop mode and text mode exclude each other\<close>

lemma restoreEffect_modes:
  "isCropping (ed (restoreEffect s)) = isCropping (ed s)"
  "isAddingText (ed (restoreEffect s)) = isAddingText (ed s)"
  by (simp_all add: restoreEffect_def)

lemma modes_handleFileSelection:
  "modes_exclusive s \<Longrightarrow> modes_exclusive (handleFileSelection file s)"
  by (simp add: modes_exclusive_def handleFileSelection_def createObjectURL_def
      restoreEffect_modes Let_def)

lemma modes_handleCropEnd:
  "modes_exclusive s \<Longrightarrow> modes_exclusive (settle s (handleCropEnd imageRef s))"
  by (simp add: modes_exclusive_def handleCropEnd_def settle_def
      split: option.splits)

lemma modes_handleTextPositionChange:
  "modes_exclusive s \<Longrightarrow> modes_exclusive (handleTextPositionChange x y s)"
  by (simp add: modes_exclusive_def handleTextPositionChange_def restoreEffect_modes Let_def)

lemma modes_handleTextDragMove:
  "modes_exclusive s \<Longrightarrow> modes_exclusive (handleTextDragMove e rect s)"
  by (cases "dragStartPos (ed s)")
    (simp_all add: handleTextDragMove_def Let_def modes_handleTextPositionChange)

lemma modes_onMouseMove:
  "modes_exclusive s \<Longrightarrow> modes_exclusive (onMouseMove e rect angle s)"
  unfolding onMouseMove_def
  by (simp add: modes_handleTextDragMove)
    (simp add: modes_exclusive_def handleRotationMove_def handleCropMove_def Let_def)

lemma modes_onMouseUp:
  "modes_exclusive s \<Longrightarrow> modes_exclusive (onMouseUp imageRef s)"
  using modes_handleCropEnd [of s imageRef]
  by (simp add: onMouseUp_def)
     (simp add: modes_exclusive_def handleTextDragEnd_def handleRotationEnd_def restoreEffect_modes)

lemma modes_onMouseDown:
  "modes_exclusive s \<Longrightarrow> modes_exclusive (onMouseDown e rect s)"
  by (simp add: modes_exclusive_def onMouseDown_def handleCropStart_def Let_def)

lemma modes_handleDrop:
  assumes "modes_exclusive s"
  shows "modes_exclusive (handleDrop files s)"
proof -
  let ?s' = "s\<lparr>ed := (ed s)\<lparr>isDragging := False\<rparr>\<rparr>"
  from assms have s': "modes_exclusive ?s'" by (simp add: modes_exclusive_def)
  show ?thesis
  proof (cases files)
    case Nil
    with s' show ?thesis by (simp add: handleDrop_def)
  next
    case (Cons f rest)
    from s' have "modes_exclusive (handleFileSelection f ?s')"
      by (rule modes_handleFileSelection)
    with Cons show ?thesis by (simp add: handleDrop_def)
  qed
qed

lemma modes_handle:
  "modes_exclusive s \<Longrightarrow> modes_exclusive (handle ev s)"
proof (cases ev)
  case (Drop files)
  then show "modes_exclusive s \<Longrightarrow> ?thesis"
    by (simp add: modes_handleDrop)
next
  case (FileInputChange files)
  then show "modes_exclusive s \<Longrightarrow> ?thesis"
    by (simp add: handleFileInputChange_def modes_handleFileSelection split: list.splits)
next
  case (MouseMove e rect angle)
  then show "modes_exclusive s \<Longrightarrow> ?thesis"
    by (simp add: modes_onMouseMove)
next
  case (MouseUp imageRef)
  then show "modes_exclusive s \<Longrightarrow> ?thesis" by (simp add: modes_onMouseUp)
next
  case (MouseLeave imageRef)
  then show "modes_exclusive s \<Longrightarrow> ?thesis" by (simp add: onMouseLeave_def modes_onMouseUp)
next
  case (MouseDown e rect)
  then show "modes_exclusive s \<Longrightarrow> ?thesis" by (simp add: modes_onMouseDown)
next
  case (TextMouseDown e rect)
  then show "modes_exclusive s \<Longrightarrow> ?thesis"
    using modes_onMouseDown [of s e rect]
    by (simp add: onTextMouseDown_def handleTextDragStart_def) (auto simp add: modes_exclusive_def)
next
  case (HandleMouseDown e rect)
  then show "modes_exclusive s \<Longrightarrow> ?thesis"
    using modes_onMouseDown [of s e rect]
    by (simp add: onHandleMouseDown_def onTextMouseDown_def handleRotationStart_def)
       (auto simp add: modes_exclusive_def)
qed (simp_all add: modes_exclusive_def restoreEffect_modes handleDragEnter_def
      handleDragLeave_def retryCamera_def createTextOnlyCaption_def removeMedia_def
      applyCrop_def cancelCrop_def applyFilter_def rotateMedia_def toggleCropMode_def
      toggleTextMode_def resetEdits_def saveEdits_def handleTextChange_def
      toggleEmojiPicker_def onEmojiClick_def resetTextRotation_def positionTextAtBottom_def
      mount_def initial_editor_def split: option.splits)

lemma modes_interact:
  "modes_exclusive s \<Longrightarrow> modes_exclusive (interact evs s)"
  by (induction evs arbitrary: s) (simp_all add: modes_handle)

lemma modes_mount: "modes_exclusive (mount s)"
  by (simp add: modes_exclusive_def mount_def restoreEffect_modes initial_editor_def)

text \<open>
  Claim C10. After any sequence of interactions with the editor, crop mode and text mode
  are not both active. \<open>toggleCropMode\<close> and \<open>toggleTextMode\<close> flip their own mode, and in
  the state they produce the two modes are again not both active: entering one mode
  leaves the other one off.
\<close>

theorem crop_and_text_exclusive:
  "\<not> (isCropping (ed (editor_after evs)) \<and> isAddingText (ed (editor_after evs)))
   \<and> isCropping (ed (toggleCropMode (editor_after evs))) = (\<not> isCropping (ed (editor_after evs)))
   \<and> isAddingText (ed (toggleTextMode (editor_after evs))) = (\<not> isAddingText (ed (editor_after evs)))
   \<and> \<not> (isCropping (ed (toggleCropMode (editor_after evs)))
          \<and> isAddingText (ed (toggleCropMode (editor_after evs))))
   \<and> \<not> (isCropping (ed (toggleTextMode (editor_after evs)))
          \<and> isAddingText (ed (toggleTextMode (editor_after evs))))"
proof -
  have inv: "modes_exclusive (editor_after evs)"
    unfolding editor_after_def by (rule modes_interact) (rule modes_mount)
  have "modes_exclusive (handle ToggleCropMode (editor_after evs))"
    using inv by (rule modes_handle)
  moreover have "modes_exclusive (handle ToggleTextMode (editor_after evs))"
    using inv by (rule modes_handle)
  moreover have "isCropping (ed (toggleCropMode (editor_after evs))) = (\<not> isCropping (ed (editor_after evs)))"
    by (simp add: toggleCropMode_def)
  moreover have "isAddingText (ed (toggleTextMode (editor_after evs))) = (\<not> isAddingText (ed (editor_after evs)))"
    by (simp add: toggleTextMode_def restoreEffect_modes)
  ultimately show ?thesis using inv by (simp add: modes_exclusive_def)
qed

subsection \<open>Rotation\<close>

text \<open>
  On a rotation that is not negative the JS remainder is the mathematical one.
  On a negative dividend it is not: it keeps the sign of the dividend.
\<close>

lemma smod_nonneg: "0 \<le> a \<Longrightarrow> a smod 360 = a mod (360::int)"
  by (simp add: signed_modulo_int_def sgn_if)

lemma newRotation_negative: "newRotation ''clockwise'' (- 180) = - 90"
  by (simp add: newRotation_def signed_modulo_int_def)

lemma newRotation_clockwise:
  assumes "0 \<le> r"
  shows "newRotation ''clockwise'' r = (r + 90) mod 360"
proof -
  from assms have "0 \<le> r + 90" by simp
  then have "(r + 90) smod 360 = (r + 90) mod 360" by (rule smod_nonneg)
  then show ?thesis unfolding newRotation_def by simp
qed

lemma newRotation_counter:
  assumes "0 \<le> r" "d \<noteq> ''clockwise''"
  shows "newRotation d r = (r - 90) mod 360"
proof -
  from assms(1) have "0 \<le> r - 90 + 360" by simp
  then have "(r - 90 + 360) smod 360 = (r - 90 + 360) mod 360" by (rule smod_nonneg)
  also have "\<dots> = (r - 90) mod 360" by (rule mod_add_self2)
  finally show ?thesis using assms(2) unfolding newRotation_def by simp
qed

lemma newRotation_quarter:
  assumes "r \<in> quarter_turns"
  shows "newRotation d r \<in> quarter_turns"
proof -
  from assms have r: "r = 0 \<or> r = 90 \<or> r = 180 \<or> r = 270" by (simp add: quarter_turns_def)
  then have "0 \<le> r" by auto
  show ?thesis
  proof (cases "d = ''clockwise''")
    case True
    then have "newRotation d r = (r + 90) mod 360"
      using \<open>0 \<le> r\<close> by (simp add: newRotation_clockwise)
    with r show ?thesis by (auto simp add: quarter_turns_def)
  next
    case False
    then have "newRotation d r = (r - 90) mod 360"
      using \<open>0 \<le> r\<close> by (simp add: newRotation_counter)
    with r show ?thesis by (auto simp add: quarter_turns_def)
  qed
qed

lemma restoreEffect_form: "form (restoreEffect s) = form s"
  by (simp add: restoreEffect_def)

lemma restoreEffect_blobs: "blobs (restoreEffect s) = blobs s"
  by (simp add: restoreEffect_def)

lemma restoreEffect_rotation:
  "rotation (ed (restoreEffect s)) =
     (if mediaUrl (form s) \<noteq> NoUrl \<and> fd_rotation (form s) \<noteq> 0
      then fd_rotation (form s) else rotation (ed s))"
  by (simp add: restoreEffect_def)

lemma rotation_ok_restoreEffect:
  "rotation_ok s \<Longrightarrow> rotation_ok (restoreEffect s)"
  by (simp add: rotation_ok_def restoreEffect_form restoreEffect_rotation)

lemma zero_quarter: "0 \<in> quarter_turns"
  by (simp add: quarter_turns_def)

lemma rotation_ok_handleFileSelection:
  "rotation_ok s \<Longrightarrow> rotation_ok (handleFileSelection f s)"
  by (simp add: handleFileSelection_def createObjectURL_def Let_def rotation_ok_def
      restoreEffect_form restoreEffect_rotation zero_quarter)

lemma rotation_ok_handleDrop:
  assumes "rotation_ok s"
  shows "rotation_ok (handleDrop files s)"
proof -
  let ?s' = "s\<lparr>ed := (ed s)\<lparr>isDragging := False\<rparr>\<rparr>"
  from assms have s': "rotation_ok ?s'" by (simp add: rotation_ok_def)
  show ?thesis
  proof (cases files)
    case Nil
    with s' show ?thesis by (simp add: handleDrop_def)
  next
    case (Cons f rest)
    from s' have "rotation_ok (handleFileSelection f ?s')"
      by (rule rotation_ok_handleFileSelection)
    with Cons show ?thesis by (simp add: handleDrop_def)
  qed
qed

lemma rotation_ok_handleTextPositionChange:
  "rotation_ok s \<Longrightarrow> rotation_ok (handleTextPositionChange x y s)"
  by (simp add: rotation_ok_def handleTextPositionChange_def Let_def
      restoreEffect_form restoreEffect_rotation)

lemma rotation_ok_handleTextDragMove:
  "rotation_ok s \<Longrightarrow> rotation_ok (handleTextDragMove e rect s)"
  by (cases "dragStartPos (ed s)")
    (simp_all add: handleTextDragMove_def Let_def rotation_ok_handleTextPositionChange)

lemma rotation_ok_onMouseMove:
  "rotation_ok s \<Longrightarrow> rotation_ok (onMouseMove e rect angle s)"
  unfolding onMouseMove_def
  by (simp add: rotation_ok_handleTextDragMove)
    (simp add: rotation_ok_def handleRotationMove_def handleCropMove_def Let_def)

lemma rotation_ok_handleCropEnd:
  "rotation_ok s \<Longrightarrow> rotation_ok (settle s (handleCropEnd imageRef s))"
  by (simp add: rotation_ok_def handleCropEnd_def settle_def split: option.splits)

lemma rotation_ok_onMouseUp:
  "rotation_ok s \<Longrightarrow> rotation_ok (onMouseUp imageRef s)"
  using rotation_ok_handleCropEnd [of s imageRef]
  by (simp add: onMouseUp_def)
     (simp add: rotation_ok_def handleTextDragEnd_def handleRotationEnd_def
       restoreEffect_form restoreEffect_rotation)

lemma rotation_ok_onMouseDown:
  "rotation_ok s \<Longrightarrow> rotation_ok (onMouseDown e rect s)"
  by (simp add: rotation_ok_def onMouseDown_def handleCropStart_def Let_def)

lemma rotation_ok_onTextMouseDown:
  "rotation_ok s \<Longrightarrow> rotation_ok (onTextMouseDown e rect s)"
  using rotation_ok_onMouseDown [of s e rect]
  by (simp add: onTextMouseDown_def handleTextDragStart_def) (auto simp add: rotation_ok_def)

lemma rotation_ok_rotateMedia:
  "rotation_ok s \<Longrightarrow> rotation_ok (rotateMedia d s)"
  by (simp add: rotation_ok_def rotateMedia_def restoreEffect_form restoreEffect_rotation
      newRotation_quarter)

lemma rotation_ok_handle:
  "rotation_ok s \<Longrightarrow> rotation_ok (handle ev s)"
proof (cases ev)
  case (Drop files)
  then show "rotation_ok s \<Longrightarrow> ?thesis" by (simp add: rotation_ok_handleDrop)
next
  case (FileInputChange files)
  then show "rotation_ok s \<Longrightarrow> ?thesis"
    by (simp add: handleFileInputChange_def rotation_ok_handleFileSelection split: list.splits)
next
  case (MouseMove e rect angle)
  then show "rotation_ok s \<Longrightarrow> ?thesis" by (simp add: rotation_ok_onMouseMove)
next
  case (MouseUp imageRef)
  then show "rotation_ok s \<Longrightarrow> ?thesis" by (simp add: rotation_ok_onMouseUp)
next
  case (MouseLeave imageRef)
  then show "rotation_ok s \<Longrightarrow> ?thesis" by (simp add: onMouseLeave_def rotation_ok_onMouseUp)
next
  case (MouseDown e rect)
  then show "rotation_ok s \<Longrightarrow> ?thesis" by (simp add: rotation_ok_onMouseDown)
next
  case (TextMouseDown e rect)
  then show "rotation_ok s \<Longrightarrow> ?thesis" by (simp add: rotation_ok_onTextMouseDown)
next
  case (HandleMouseDown e rect)
  then show "rotation_ok s \<Longrightarrow> ?thesis"
    using rotation_ok_onTextMouseDown [of s e rect]
    by (simp add: onHandleMouseDown_def handleRotationStart_def) (auto simp add: rotation_ok_def)
next
  case (RotateMedia d)
  then show "rotation_ok s \<Longrightarrow> ?thesis" by (simp add: rotation_ok_rotateMedia)
qed (simp_all add: rotation_ok_def restoreEffect_form restoreEffect_rotation zero_quarter
      handleDragEnter_def handleDragLeave_def retryCamera_def createTextOnlyCaption_def
      removeMedia_def applyCrop_def cancelCrop_def applyFilter_def toggleCropMode_def
      toggleTextMode_def resetEdits_def saveEdits_def handleTextChange_def
      toggleEmojiPicker_def onEmojiClick_def resetTextRotation_def positionTextAtBottom_def
      mount_def initial_editor_def split: option.splits)

lemma rotation_ok_interact:
  "rotation_ok s \<Longrightarrow> rotation_ok (interact evs s)"
  by (induction evs arbitrary: s) (simp_all add: rotation_ok_handle)

lemma rotation_ok_editor_after: "rotation_ok (editor_after evs)"
  unfolding editor_after_def
  by (rule rotation_ok_interact)
    (simp add: rotation_ok_def mount_def initial_media_def initial_form_def initial_editor_def
      restoreEffect_form restoreEffect_rotation zero_quarter)

lemma rotation_after_rotateMedia:
  "rotation (ed (rotateMedia d s)) = newRotation d (rotation (ed s))"
  by (simp add: rotateMedia_def restoreEffect_rotation)

text \<open>
  Claim C9. For the rotation \<open>r\<close> of any state the editor reaches,
  \<open>rotateMedia\<close> clockwise yields \<open>(r + 90) mod 360\<close> and counter-clockwise yields
  \<open>(r - 90) mod 360\<close>, both in the range from \<open>0\<close> to \<open>359\<close>, and four clockwise
  rotations return \<open>r\<close>.
\<close>

theorem rotateMedia_quarter_turns:
  "rotation (ed (rotateMedia ''clockwise'' (editor_after evs)))
     = (rotation (ed (editor_after evs)) + 90) mod 360
   \<and> rotation (ed (rotateMedia ''counter-clockwise'' (editor_after evs)))
     = (rotation (ed (editor_after evs)) - 90) mod 360
   \<and> 0 \<le> rotation (ed (rotateMedia ''clockwise'' (editor_after evs)))
   \<and> rotation (ed (rotateMedia ''clockwise'' (editor_after evs))) < 360
   \<and> 0 \<le> rotation (ed (rotateMedia ''counter-clockwise'' (editor_after evs)))
   \<and> rotation (ed (rotateMedia ''counter-clockwise'' (editor_after evs))) < 360
   \<and> rotation (ed (rotateMedia ''clockwise'' (rotateMedia ''clockwise''
         (rotateMedia ''clockwise'' (rotateMedia ''clockwise'' (editor_after evs))))))
     = rotation (ed (editor_after evs))"
proof -
  let ?s = "editor_after evs"
  let ?r = "rotation (ed ?s)"
  have "rotation_ok ?s" by (rule rotation_ok_editor_after)
  then have q: "?r = 0 \<or> ?r = 90 \<or> ?r = 180 \<or> ?r = 270"
    by (simp add: rotation_ok_def quarter_turns_def)
  then have r0: "0 \<le> ?r" by auto
  have cw: "\<And>s. 0 \<le> rotation (ed s) \<Longrightarrow>
      rotation (ed (rotateMedia ''clockwise'' s)) = (rotation (ed s) + 90) mod 360"
    by (simp add: rotation_after_rotateMedia newRotation_clockwise)
  have ccw: "rotation (ed (rotateMedia ''counter-clockwise'' ?s)) = (?r - 90) mod 360"
    using r0 by (simp add: rotation_after_rotateMedia newRotation_counter)
  have c1: "rotation (ed (rotateMedia ''clockwise'' ?s)) = (?r + 90) mod 360"
    using r0 by (rule cw)
  have c2: "rotation (ed (rotateMedia ''clockwise'' (rotateMedia ''clockwise'' ?s)))
      = (?r + 180) mod 360"
    using q by (subst cw) (auto simp add: c1)
  have c3: "rotation (ed (rotateMedia ''clockwise'' (rotateMedia ''clockwise''
      (rotateMedia ''clockwise'' ?s)))) = (?r + 270) mod 360"
    using q by (subst cw) (auto simp add: c2)
  have c4: "rotation (ed (rotateMedia ''clockwise'' (rotateMedia ''clockwise''
      (rotateMedia ''clockwise'' (rotateMedia ''clockwise'' ?s))))) = ?r"
    using q by (subst cw) (auto simp add: c3)
  from c1 ccw c4 show ?thesis by simp
qed

subsection \<open>Doubles and canvas sizes\<close>

text \<open>
  Evaluating \<open>binary64\<close>: the exponent of a number is fixed by the two powers of two
  that enclose it.
\<close>

lemma pow2_powr: "pow2 e = 2 powr (of_int e)"
  by (simp add: pow2_def powr_real_of_int divide_inverse)

lemma pow2_pos: "0 < pow2 e"
  by (simp add: pow2_def)

lemma exponent64_eqI:
  assumes "pow2 e \<le> \<bar>x\<bar>" "\<bar>x\<bar> < pow2 (e + 1)" "- 1022 \<le> e"
  shows "exponent64 x = e"
proof -
  from assms(1) pow2_pos [of e] have pos: "0 < \<bar>x\<bar>" by linarith
  have "\<lfloor>log 2 \<bar>x\<bar>\<rfloor> = e"
    using assms(1,2) pos by (simp add: floor_log_eq_powr_iff pow2_powr)
  with assms(3) show ?thesis by (simp add: exponent64_def)
qed

lemma binary64_eqI:
  assumes "pow2 e \<le> \<bar>x\<bar>" "\<bar>x\<bar> < pow2 (e + 1)" "- 1022 \<le> e"
    and "roundTiesToEven (x / pow2 (e - 52)) = n"
  shows "binary64 x = of_int n * pow2 (e - 52)"
proof -
  from assms(1) pow2_pos [of e] have "x \<noteq> 0" by auto
  moreover have "exponent64 x = e" using assms(1-3) by (rule exponent64_eqI)
  ultimately show ?thesis using assms(4) by (simp add: binary64_def)
qed




text \<open>
  The doubles that the sample gestures compute.
\<close>

lemma binary64_80: "binary64 (80) = 80"
  using binary64_eqI [of "6" "80" 5629499534213120]
  by (simp add: pow2_def roundTiesToEven_def)

lemma binary64_64: "binary64 (64) = 64"
  using binary64_eqI [of "6" "64" 4503599627370496]
  by (simp add: pow2_def roundTiesToEven_def)

lemma binary64_96: "binary64 (96) = 96"
  using binary64_eqI [of "6" "96" 6755399441055744]
  by (simp add: pow2_def roundTiesToEven_def)

lemma binary64_256: "binary64 (256) = 256"
  using binary64_eqI [of "8" "256" 4503599627370496]
  by (simp add: pow2_def roundTiesToEven_def)

lemma binary64_480: "binary64 (480) = 480"
  using binary64_eqI [of "8" "480" 8444249301319680]
  by (simp add: pow2_def roundTiesToEven_def)

lemma binary64_240: "binary64 (240) = 240"
  using binary64_eqI [of "7" "240" 8444249301319680]
  by (simp add: pow2_def roundTiesToEven_def)

lemma binary64_tenth: "binary64 (1 / 10) = 3602879701896397 / 36028797018963968"
  using binary64_eqI [of "- 4" "1 / 10" 7205759403792794]
  by (simp add: pow2_def roundTiesToEven_def)

lemma binary64_fifth: "binary64 (1 / 5) = 3602879701896397 / 18014398509481984"
  using binary64_eqI [of "- 3" "1 / 5" 7205759403792794]
  by (simp add: pow2_def roundTiesToEven_def)

lemma binary64_3_25: "binary64 (3 / 25) = 1080863910568919 / 9007199254740992"
  using binary64_eqI [of "- 4" "3 / 25" 8646911284551352]
  by (simp add: pow2_def roundTiesToEven_def)

lemma binary64_4_5: "binary64 (4 / 5) = 3602879701896397 / 4503599627370496"
  using binary64_eqI [of "- 1" "4 / 5" 7205759403792794]
  by (simp add: pow2_def roundTiesToEven_def)

lemma binary64_3_5: "binary64 (3 / 5) = 5404319552844595 / 9007199254740992"
  using binary64_eqI [of "- 1" "3 / 5" 5404319552844595]
  by (simp add: pow2_def roundTiesToEven_def)

lemma binary64_3_10: "binary64 (3 / 10) = 5404319552844595 / 18014398509481984"
  using binary64_eqI [of "- 2" "3 / 10" 5404319552844595]
  by (simp add: pow2_def roundTiesToEven_def)

lemma binary64_dx: "binary64 (18014398509481983 / 36028797018963968) = 1 / 2"
  using binary64_eqI [of "- 2" "18014398509481983 / 36028797018963968" 9007199254740992]
  by (simp add: pow2_def roundTiesToEven_def)

lemma binary64_dy: "binary64 (10808639105689191 / 18014398509481984) = 1351079888211149 / 2251799813685248"
  using binary64_eqI [of "- 1" "10808639105689191 / 18014398509481984" 5404319552844596]
  by (simp add: pow2_def roundTiesToEven_def)

lemma binary64_dr: "binary64 (7205759403792793 / 36028797018963968) = 7205759403792793 / 36028797018963968"
  using binary64_eqI [of "- 3" "7205759403792793 / 36028797018963968" 7205759403792793]
  by (simp add: pow2_def roundTiesToEven_def)

lemma binary64_w1000: "binary64 (500) = 500"
  using binary64_eqI [of "8" "500" 8796093022208000]
  by (simp add: pow2_def roundTiesToEven_def)

lemma binary64_h500: "binary64 (168884986026393625 / 562949953421312) = 5277655813324801 / 17592186044416"
  using binary64_eqI [of "8" "168884986026393625 / 562949953421312" 5277655813324801]
  by (simp add: pow2_def roundTiesToEven_def)

lemma binary64_w1001: "binary64 (1001 / 2) = 1001 / 2"
  using binary64_eqI [of "8" "1001 / 2" 8804889115230208]
  by (simp add: pow2_def roundTiesToEven_def)

lemma binary64_h333: "binary64 (449909602774312617 / 2251799813685248) = 7029837543348635 / 35184372088832"
  using binary64_eqI [of "7" "449909602774312617 / 2251799813685248" 7029837543348635]
  by (simp add: pow2_def roundTiesToEven_def)

lemma binary64_r1000: "binary64 (900719925474099125 / 4503599627370496) = 7036874417766399 / 35184372088832"
  using binary64_eqI [of "7" "900719925474099125 / 4503599627370496" 7036874417766399]
  by (simp add: pow2_def roundTiesToEven_def)

lemma binary64_sx1000: "binary64 (450359962737049625 / 4503599627370496) = 100"
  using binary64_eqI [of "6" "450359962737049625 / 4503599627370496" 7036874417766400]
  by (simp add: pow2_def roundTiesToEven_def)

lemma binary64_sx1001: "binary64 (3606482581598293397 / 36028797018963968) = 7043911292184167 / 70368744177664"
  using binary64_eqI [of "6" "3606482581598293397 / 36028797018963968" 7043911292184167]
  by (simp add: pow2_def roundTiesToEven_def)

lemma binary64_sy333: "binary64 (1199758940731500201 / 18014398509481984) = 4686558362232423 / 70368744177664"
  using binary64_eqI [of "6" "1199758940731500201 / 18014398509481984" 4686558362232423]
  by (simp add: pow2_def roundTiesToEven_def)

lemmas binary64_values =
  binary64_80 binary64_64 binary64_96 binary64_256 binary64_480 binary64_240
  binary64_tenth binary64_fifth binary64_3_25 binary64_4_5 binary64_3_5 binary64_3_10
  binary64_dx binary64_dy binary64_dr binary64_w1000 binary64_h500 binary64_w1001
  binary64_h333 binary64_r1000 binary64_sx1000 binary64_sx1001 binary64_sy333

lemmas run_gesture =
  editor_after_def crop_gesture_def mount_def initial_media_def initial_form_def
  initial_editor_def restoreEffect_def handleFileInputChange_def handleFileSelection_def
  createObjectURL_def supportedTypes_def MAX_FILE_SIZE_def startsWith_def sample_jpeg_def
  sample_rect_def toggleCropMode_def onMouseDown_def handleCropStart_def onMouseMove_def
  handleCropMove_def bottom_center_def empty_store_def js_sub_def js_div_def Let_def

subsection \<open>The end of a crop gesture\<close>








lemma rounded_gesture_state:
  "editor_after (crop_gesture \<lparr>clientX = 80, clientY = 64\<rparr> \<lparr>clientX = 240, clientY = 256\<rparr>) =
     \<lparr>ed = initial_editor\<lparr>showEditor := True, isCropping := True,
        cropStart := \<lparr>x_coord = 3602879701896397 / 36028797018963968,
                      y_coord = 3602879701896397 / 18014398509481984\<rparr>,
        cropEnd := \<lparr>x_coord = 5404319552844595 / 18014398509481984,
                    y_coord = 3602879701896397 / 4503599627370496\<rparr>\<rparr>,
      form = initial_form\<lparr>media := Some sample_jpeg, mediaUrl := BlobUrl 0,
        mediaType := ''image'', fd_filter := ''none'', fd_textPosition := Some bottom_center\<rparr>,
      blobs = \<lparr>entries = [0 \<mapsto> sample_jpeg], next_id = 1\<rparr>\<rparr>"
  by (simp add: run_gesture binary64_values)

text \<open>
  The rounding of the doubles shows in the size: a gesture from 80 to 240 pixels of a
  container 800 wide, on an image 1000 wide, gives a preview 199 wide, because
  \<^verbatim>\<open>0.3 - 0.1\<close> is \<open>0.19999999999999998\<close> and its product with 1000 is
  \<open>199.99999999999997\<close>.
\<close>

lemma crop_width_rounds_down:
  "map_option raster_width (cropPreview (ed (settle (editor_after (crop_gesture \<lparr>clientX = 80, clientY = 64\<rparr> \<lparr>clientX = 240, clientY = 256\<rparr>))
      (handleCropEnd (Some sample_image) (editor_after (crop_gesture \<lparr>clientX = 80, clientY = 64\<rparr> \<lparr>clientX = 240, clientY = 256\<rparr>)))))) = Some 199
   \<and> js_sub (binary64 0.3) (binary64 0.1) = 7205759403792793 / 36028797018963968
   \<and> js_mul (js_sub (binary64 0.3) (binary64 0.1)) 1000 = 7036874417766399 / 35184372088832"
  by (simp add: rounded_gesture_state handleCropEnd_def minSize_def settle_def cropCanvas_def
      normalizedCrop_def canvas_size_def toUnsignedLong_def js_mul_def js_sub_def
      binary64_values sample_jpeg_def sample_image_def initial_form_def initial_editor_def)

subsection \<open>Object URLs that are replaced\<close>

text \<open>
  The two sibling paths release the object URL they replace.
\<close>

lemma removeMedia_revokes:
  "mediaUrl (form s) = BlobUrl n \<Longrightarrow> entries (blobs (removeMedia s)) n = None"
  by (simp add: removeMedia_def restoreEffect_blobs)

lemma applyCrop_revokes:
  "cropPreview (ed s) = Some p \<Longrightarrow> mediaUrl (form s) = BlobUrl n \<Longrightarrow>
   entries (blobs (applyCrop s)) n = None"
  by (simp add: applyCrop_def restoreEffect_blobs)

lemma handleFileSelection_entries:
  "entries (blobs s) n = Some g \<Longrightarrow> n < next_id (blobs s) \<Longrightarrow>
   entries (blobs (handleFileSelection f s)) n = Some g"
  by (simp add: handleFileSelection_def createObjectURL_def Let_def restoreEffect_blobs)

text \<open>
  Claim C3 on the code. With the object URL \<open>0\<close> of a first file held, accepting a
  second file installs the object URL \<open>1\<close> and leaves URL \<open>0\<close> alive in the blob store:
  \<open>handleFileSelection\<close> has no call of \<open>revokeObjectURL\<close>. \<open>removeMedia\<close> from the
  same state revokes it.
\<close>

theorem handleFileSelection_keeps_previous_url:
  "mediaUrl (form (editor_after [FileInputChange [sample_jpeg]])) = BlobUrl 0
   \<and> mediaUrl (form (handleFileSelection sample_png (editor_after [FileInputChange [sample_jpeg]])))
       = BlobUrl 1
   \<and> entries (blobs (handleFileSelection sample_png (editor_after [FileInputChange [sample_jpeg]]))) 0
       = Some sample_jpeg
   \<and> entries (blobs (removeMedia (editor_after [FileInputChange [sample_jpeg]]))) 0 = None"
  by (simp add: editor_after_def mount_def initial_media_def initial_form_def
      initial_editor_def restoreEffect_def handleFileInputChange_def handleFileSelection_def
      createObjectURL_def supportedTypes_def MAX_FILE_SIZE_def startsWith_def sample_jpeg_def
      sample_png_def removeMedia_def bottom_center_def empty_store_def Let_def)

end
